theory Spec2Isabelle
  imports Complex_Main "HOL-Library.Word"
begin

unbundle bit_operations_syntax

section \<open>Strings, bytes and the Node runtime the code calls into\<close>

text \<open>
  The webhook code lives in \<^verbatim>\<open>src/utils/webhook.ts\<close> (class \<^verbatim>\<open>WebhookHandler\<close> and the
  exported helpers) and \<^verbatim>\<open>src/routes/webhooks.ts\<close> (the Express routes). Both call into
  Node's \<^verbatim>\<open>crypto\<close> and \<^verbatim>\<open>Buffer\<close> and into \<^verbatim>\<open>JSON.stringify\<close> and \<^verbatim>\<open>parseInt\<close>.
  Those library functions are modelled first, by what their documentation says.

  A JavaScript string is modelled as a \<^typ>\<open>string\<close> whose characters are the code units
  \<open>0 .. 255\<close>; strings with code units above 255 are outside the model. A \<^verbatim>\<open>Buffer\<close> is a
  list of bytes.
\<close>

type_synonym byte = "8 word"
type_synonym w32 = "32 word"

text \<open>\<^verbatim>\<open>Buffer.from(s, 'utf8')\<close> on a string of code units below 256: one byte below 128,
  two bytes from 128 on.\<close>

definition utf8_char :: "char \<Rightarrow> byte list" where
  "utf8_char c =
     (let n = (of_char c :: nat)
      in if n < 128 then [of_nat n] else [of_nat (192 + n div 64), of_nat (128 + n mod 64)])"

definition utf8 :: "string \<Rightarrow> byte list" where
  "utf8 s = concat (map utf8_char s)"

subsection \<open>SHA-256 (FIPS 180-4) and HMAC (RFC 2104), as \<^verbatim>\<open>crypto.createHmac('sha256', key)\<close> computes them\<close>

definition rotr :: "nat \<Rightarrow> w32 \<Rightarrow> w32" where
  "rotr n x = drop_bit n x OR push_bit (32 - n) x"

definition Ch :: "w32 \<Rightarrow> w32 \<Rightarrow> w32 \<Rightarrow> w32" where
  "Ch x y z = (x AND y) XOR (NOT x AND z)"

definition Maj :: "w32 \<Rightarrow> w32 \<Rightarrow> w32 \<Rightarrow> w32" where
  "Maj x y z = (x AND y) XOR (x AND z) XOR (y AND z)"

definition bsig0 :: "w32 \<Rightarrow> w32" where
  "bsig0 x = rotr 2 x XOR rotr 13 x XOR rotr 22 x"

definition bsig1 :: "w32 \<Rightarrow> w32" where
  "bsig1 x = rotr 6 x XOR rotr 11 x XOR rotr 25 x"

definition ssig0 :: "w32 \<Rightarrow> w32" where
  "ssig0 x = rotr 7 x XOR rotr 18 x XOR drop_bit 3 x"

definition ssig1 :: "w32 \<Rightarrow> w32" where
  "ssig1 x = rotr 17 x XOR rotr 19 x XOR drop_bit 10 x"

definition sha256_K :: "w32 list" where
  "sha256_K =
     [0x428a2f98, 0x71374491, 0xb5c0fbcf, 0xe9b5dba5] @ [0x3956c25b, 0x59f111f1, 0x923f82a4, 0xab1c5ed5] @
     [0xd807aa98, 0x12835b01, 0x243185be, 0x550c7dc3] @ [0x72be5d74, 0x80deb1fe, 0x9bdc06a7, 0xc19bf174] @
     [0xe49b69c1, 0xefbe4786, 0x0fc19dc6, 0x240ca1cc] @ [0x2de92c6f, 0x4a7484aa, 0x5cb0a9dc, 0x76f988da] @
     [0x983e5152, 0xa831c66d, 0xb00327c8, 0xbf597fc7] @ [0xc6e00bf3, 0xd5a79147, 0x06ca6351, 0x14292967] @
     [0x27b70a85, 0x2e1b2138, 0x4d2c6dfc, 0x53380d13] @ [0x650a7354, 0x766a0abb, 0x81c2c92e, 0x92722c85] @
     [0xa2bfe8a1, 0xa81a664b, 0xc24b8b70, 0xc76c51a3] @ [0xd192e819, 0xd6990624, 0xf40e3585, 0x106aa070] @
     [0x19a4c116, 0x1e376c08, 0x2748774c, 0x34b0bcb5] @ [0x391c0cb3, 0x4ed8aa4a, 0x5b9cca4f, 0x682e6ff3] @
     [0x748f82ee, 0x78a5636f, 0x84c87814, 0x8cc70208] @ [0x90befffa, 0xa4506ceb, 0xbef9a3f7, 0xc67178f2]"

type_synonym sha_state = "w32 \<times> w32 \<times> w32 \<times> w32 \<times> w32 \<times> w32 \<times> w32 \<times> w32"

definition sha256_H0 :: sha_state where
  "sha256_H0 = (0x6a09e667, 0xbb67ae85, 0x3c6ef372, 0xa54ff53a,
                0x510e527f, 0x9b05688c, 0x1f83d9ab, 0x5be0cd19)"

fun be_words :: "byte list \<Rightarrow> w32 list" where
  "be_words (a # b # c # d # bs) =
     (push_bit 24 (ucast a) OR push_bit 16 (ucast b) OR push_bit 8 (ucast c) OR ucast d) # be_words bs"
| "be_words _ = []"

text \<open>The message schedule grows at the front: the head of the list is the newest word.\<close>

fun schedule :: "nat \<Rightarrow> w32 list \<Rightarrow> w32 list" where
  "schedule 0 ws = ws"
| "schedule (Suc n) ws =
     schedule n ((ssig1 (ws ! 1) + ws ! 6 + ssig0 (ws ! 14) + ws ! 15) # ws)"

definition sha_round :: "sha_state \<Rightarrow> w32 \<times> w32 \<Rightarrow> sha_state" where
  "sha_round s kw =
     (case s of (a, b, c, d, e, f, g, h) \<Rightarrow>
        let t1 = h + bsig1 e + Ch e f g + fst kw + snd kw;
            t2 = bsig0 a + Maj a b c
        in (t1 + t2, a, b, c, d + t1, e, f, g))"

definition compress :: "sha_state \<Rightarrow> byte list \<Rightarrow> sha_state" where
  "compress s block =
     (let w = rev (schedule 48 (rev (be_words block)));
          r = foldl sha_round s (zip sha256_K w)
      in case s of (a, b, c, d, e, f, g, h) \<Rightarrow>
         case r of (a', b', c', d', e', f', g', h') \<Rightarrow>
           (a + a', b + b', c + c', d + d', e + e', f + f', g + g', h + h'))"

definition len_bytes :: "nat \<Rightarrow> byte list" where
  "len_bytes n =
     (let w = (of_nat n :: 64 word)
      in map (\<lambda>i. ucast (drop_bit (8 * i) w)) [7, 6, 5, 4, 3, 2, 1, 0])"

definition sha_pad :: "byte list \<Rightarrow> byte list" where
  "sha_pad m =
     m @ [0x80] @ replicate ((119 - length m mod 64) mod 64) 0 @ len_bytes (8 * length m)"

fun sha_blocks :: "nat \<Rightarrow> sha_state \<Rightarrow> byte list \<Rightarrow> sha_state" where
  "sha_blocks 0 s bs = s"
| "sha_blocks (Suc n) s bs = sha_blocks n (compress s (take 64 bs)) (drop 64 bs)"

definition word_bytes :: "w32 \<Rightarrow> byte list" where
  "word_bytes w = [ucast (drop_bit 24 w), ucast (drop_bit 16 w), ucast (drop_bit 8 w), ucast w]"

definition sha256 :: "byte list \<Rightarrow> byte list" where
  "sha256 m =
     (let p = sha_pad m
      in case sha_blocks (length p div 64) sha256_H0 p of (a, b, c, d, e, f, g, h) \<Rightarrow>
           concat (map word_bytes [a, b, c, d, e, f, g, h]))"

definition hmac_sha256 :: "byte list \<Rightarrow> byte list \<Rightarrow> byte list" where
  "hmac_sha256 key msg =
     (let k0 = (if length key > 64 then sha256 key else key);
          k = k0 @ replicate (64 - length k0) 0
      in sha256 (map (\<lambda>b. b XOR 0x5c) k @ sha256 (map (\<lambda>b. b XOR 0x36) k @ msg)))"

subsection \<open>Hexadecimal: \<^verbatim>\<open>digest('hex')\<close> and \<^verbatim>\<open>Buffer.from(s, 'hex')\<close>\<close>

definition hex_digit :: "nat \<Rightarrow> char" where
  "hex_digit n = (if n < 10 then char_of (48 + n) else char_of (87 + n))"

definition hex_encode :: "byte list \<Rightarrow> string" where
  "hex_encode bs = concat (map (\<lambda>b. [hex_digit (unat b div 16), hex_digit (unat b mod 16)]) bs)"

definition hex_val :: "char \<Rightarrow> nat option" where
  "hex_val c =
     (let n = (of_char c :: nat)
      in if 48 \<le> n \<and> n \<le> 57 then Some (n - 48)
         else if 97 \<le> n \<and> n \<le> 102 then Some (n - 87)
         else if 65 \<le> n \<and> n \<le> 70 then Some (n - 55)
         else None)"

text \<open>\<^verbatim>\<open>Buffer.from(s, 'hex')\<close> decodes two characters at a time and stops, keeping what it
  has, at the first pair that is not two hexadecimal digits and at a single last character.\<close>

fun hex_decode :: "string \<Rightarrow> byte list" where
  "hex_decode (a # b # cs) =
     (case hex_val a of
        None \<Rightarrow> []
      | Some x \<Rightarrow> (case hex_val b of
                     None \<Rightarrow> []
                   | Some y \<Rightarrow> of_nat (16 * x + y) # hex_decode cs))"
| "hex_decode _ = []"

subsection \<open>Exceptions and \<^verbatim>\<open>crypto.timingSafeEqual\<close>\<close>

datatype js_error = RangeError | TypeError

text \<open>\<^verbatim>\<open>crypto.timingSafeEqual(a, b)\<close> throws a \<^verbatim>\<open>RangeError\<close> when the two buffers differ in
  byte length, and otherwise says whether they hold the same bytes.\<close>

definition timingSafeEqual :: "byte list \<Rightarrow> byte list \<Rightarrow> js_error + bool" where
  "timingSafeEqual a b = (if length a \<noteq> length b then Inl RangeError else Inr (a = b))"

section \<open>Signatures (\<^verbatim>\<open>src/utils/webhook.ts\<close>)\<close>

text \<open>The call chain \<^verbatim>\<open>crypto.createHmac('sha256', secret).update(payload, 'utf8').digest('hex')\<close>,
  which the class method, the exported helper and both routes write out.\<close>

definition hmac_sha256_hex :: "string \<Rightarrow> string \<Rightarrow> string" where
  "hmac_sha256_hex secret payload = hex_encode (hmac_sha256 (utf8 secret) (utf8 payload))"

definition createSignature :: "string \<Rightarrow> string \<Rightarrow> string" where
  "createSignature payload secret = hmac_sha256_hex secret payload"

definition verifySignature :: "string \<Rightarrow> string \<Rightarrow> string \<Rightarrow> js_error + bool" where
  "verifySignature payload signature secret =
     (let expectedSignature = createSignature payload secret
      in timingSafeEqual (hex_decode signature) (hex_decode expectedSignature))"

definition createWebhookSignature :: "string \<Rightarrow> string \<Rightarrow> string" where
  "createWebhookSignature payload secret = hmac_sha256_hex secret payload"

definition verifyWebhookSignature :: "string \<Rightarrow> string \<Rightarrow> string \<Rightarrow> js_error + bool" where
  "verifyWebhookSignature payload signature secret =
     (let expectedSignature = createWebhookSignature payload secret
      in timingSafeEqual (hex_decode signature) (hex_decode expectedSignature))"

section \<open>JSON values, \<^verbatim>\<open>JSON.stringify\<close>, template literals and \<^verbatim>\<open>parseInt\<close>\<close>

text \<open>
  A request body parsed by \<^verbatim>\<open>express.json()\<close> is a JSON value. A number is carried as the
  text JavaScript prints for it, so that no floating-point arithmetic enters the model. An
  object is the list of its properties in enumeration order, one entry for each key.
  JavaScript's \<^verbatim>\<open>undefined\<close> is \<^const>\<open>None\<close> of type \<^typ>\<open>'a option\<close>.
\<close>

datatype json =
    JNull
  | JBool bool
  | JNum string
  | JStr string
  | JArr "json list"
  | JObj "(string \<times> json) list"

fun join :: "string \<Rightarrow> string list \<Rightarrow> string" where
  "join sep [] = []"
| "join sep [x] = x"
| "join sep (x # y # ys) = x @ sep @ join sep (y # ys)"

definition json_escape :: "char \<Rightarrow> string" where
  "json_escape c =
     (let n = (of_char c :: nat)
      in if n = 8 then [CHR 0x5C, CHR ''b'']
         else if n = 9 then [CHR 0x5C, CHR ''t'']
         else if n = 10 then [CHR 0x5C, CHR ''n'']
         else if n = 12 then [CHR 0x5C, CHR ''f'']
         else if n = 13 then [CHR 0x5C, CHR ''r'']
         else if n = 34 then [CHR 0x5C, CHR 0x22]
         else if n = 92 then [CHR 0x5C, CHR 0x5C]
         else if n < 32 then [CHR 0x5C, CHR ''u'', CHR ''0'', CHR ''0'', hex_digit (n div 16), hex_digit (n mod 16)]
         else [c])"

definition json_quote :: "string \<Rightarrow> string" where
  "json_quote s = [CHR 0x22] @ concat (map json_escape s) @ [CHR 0x22]"

text \<open>\<^verbatim>\<open>JSON.stringify(v)\<close> with no indentation: no white space between tokens.\<close>

fun JSON_stringify :: "json \<Rightarrow> string" where
  "JSON_stringify JNull = ''null''"
| "JSON_stringify (JBool b) = (if b then ''true'' else ''false'')"
| "JSON_stringify (JNum n) = n"
| "JSON_stringify (JStr s) = json_quote s"
| "JSON_stringify (JArr xs) = ''['' @ join '','' (map JSON_stringify xs) @ '']''"
| "JSON_stringify (JObj kvs) =
     ''{'' @ join '','' (map (\<lambda>(k, v). json_quote k @ '':'' @ JSON_stringify v) kvs) @ ''}''"

text \<open>
  The string a template literal \<^verbatim>\<open>`${v}`\<close> puts in for a value. An array is joined with
  commas, \<^verbatim>\<open>null\<close> elements giving the empty string. An object gives \<^verbatim>\<open>[object Object]\<close>
  through the \<^verbatim>\<open>toString\<close> it inherits; a parsed object with a key \<^verbatim>\<open>toString\<close> of its own
  has a value there that cannot be called, and the conversion throws a \<^verbatim>\<open>TypeError\<close>.
\<close>

fun js_string :: "json \<Rightarrow> js_error + string"
  and js_strings :: "json list \<Rightarrow> js_error + string list" where
  "js_string JNull = Inr ''null''"
| "js_string (JBool b) = Inr (if b then ''true'' else ''false'')"
| "js_string (JNum n) = Inr n"
| "js_string (JStr s) = Inr s"
| "js_string (JArr xs) = (case js_strings xs of Inl e \<Rightarrow> Inl e | Inr ss \<Rightarrow> Inr (join '','' ss))"
| "js_string (JObj kvs) =
     (if ''toString'' \<in> fst ` set kvs then Inl TypeError else Inr ''[object Object]'')"
| "js_strings [] = Inr []"
| "js_strings (x # xs) =
     (case (if x = JNull then Inr [] else js_string x) of
        Inl e \<Rightarrow> Inl e
      | Inr s \<Rightarrow> (case js_strings xs of Inl e \<Rightarrow> Inl e | Inr ss \<Rightarrow> Inr (s # ss)))"

definition template :: "json option \<Rightarrow> js_error + string" where
  "template v = (case v of None \<Rightarrow> Inr ''undefined'' | Some x \<Rightarrow> js_string x)"

text \<open>Reading a property \<^verbatim>\<open>v.k\<close>: a \<^verbatim>\<open>TypeError\<close> on \<^verbatim>\<open>undefined\<close> and \<^verbatim>\<open>null\<close>, the property
  of an object, and \<^verbatim>\<open>undefined\<close> for the keys the code reads (\<^verbatim>\<open>id\<close>, \<^verbatim>\<open>event\<close>, ...) on any
  other value.\<close>

definition member :: "json option \<Rightarrow> string \<Rightarrow> js_error + json option" where
  "member v k =
     (case v of
        None \<Rightarrow> Inl TypeError
      | Some JNull \<Rightarrow> Inl TypeError
      | Some (JObj kvs) \<Rightarrow> Inr (map_of kvs k)
      | Some _ \<Rightarrow> Inr None)"

text \<open>
  A JavaScript number is \<^verbatim>\<open>NaN\<close>, an infinity or a finite double. The numbers the verifier
  computes with are integers (\<open>int number\<close>); a tolerance may be any number, and a finite
  double is a rational (\<open>rat number\<close>). The sign of zero is not modelled.
\<close>

datatype 'a number = NaN | PlusInfinity | MinusInfinity | Finite 'a

function bit_length :: "int \<Rightarrow> nat" where
  "bit_length a = (if a \<le> 0 then 0 else Suc (bit_length (a div 2)))"
  by pat_completeness auto
termination
  by (relation "measure nat") auto

declare bit_length.simps [simp del]

text \<open>The double nearest to an integer: 53 significant bits are kept, a tie goes to the even
  neighbour, and a result of \<open>2\<^sup>1\<^sup>0\<^sup>2\<^sup>4\<close> or more is an infinity.\<close>

definition round_double :: "int \<Rightarrow> int number" where
  "round_double k =
     (let a = \<bar>k\<bar>;
          e = bit_length a - 53;
          q = a div 2 ^ e;
          r = a mod 2 ^ e;
          q' = (if 2 * r > 2 ^ e \<or> (2 * r = 2 ^ e \<and> q mod 2 = 1) then q + 1 else q);
          v = q' * 2 ^ e
      in if v \<ge> 2 ^ 1024 then (if k < 0 then MinusInfinity else PlusInfinity)
         else Finite (if k < 0 then - v else v))"

text \<open>\<^verbatim>\<open>x > y\<close> on numbers: false when either side is \<^verbatim>\<open>NaN\<close>.\<close>

fun greater :: "int number \<Rightarrow> rat number \<Rightarrow> bool" where
  "greater NaN y = False"
| "greater x NaN = False"
| "greater PlusInfinity PlusInfinity = False"
| "greater PlusInfinity y = True"
| "greater MinusInfinity y = False"
| "greater (Finite x) PlusInfinity = False"
| "greater (Finite x) MinusInfinity = True"
| "greater (Finite x) (Finite y) = (of_int x > y)"

text \<open>
  \<^verbatim>\<open>parseInt(s)\<close> with no radix: leading white space is skipped, then a sign, then \<^verbatim>\<open>0x\<close> or
  \<^verbatim>\<open>0X\<close> selects radix 16, then the longest run of digits is read; no digit gives \<^verbatim>\<open>NaN\<close>,
  and the integer read is rounded to a double (the standard lets an engine approximate a
  decimal numeral of more than 20 digits; here the rounding is exact).
\<close>

definition js_whitespace :: "char \<Rightarrow> bool" where
  "js_whitespace c = ((of_char c :: nat) \<in> {9, 10, 11, 12, 13, 32, 160})"

definition digit_val :: "nat \<Rightarrow> char \<Rightarrow> nat option" where
  "digit_val radix c =
     (case hex_val c of None \<Rightarrow> None | Some d \<Rightarrow> if d < radix then Some d else None)"

fun digits_prefix :: "nat \<Rightarrow> string \<Rightarrow> nat list" where
  "digits_prefix radix [] = []"
| "digits_prefix radix (c # cs) =
     (case digit_val radix c of None \<Rightarrow> [] | Some d \<Rightarrow> d # digits_prefix radix cs)"

definition parseInt :: "string \<Rightarrow> int number" where
  "parseInt s =
     (let t = dropWhile js_whitespace s;
          negative = (take 1 t = ''-'');
          u = (if take 1 t = ''-'' \<or> take 1 t = ''+'' then drop 1 t else t);
          hex = (take 2 u = ''0x'' \<or> take 2 u = ''0X'');
          radix = (if hex then 16 else 10);
          ds = digits_prefix radix (if hex then drop 2 u else u)
      in if ds = [] then NaN
         else round_double
                ((if negative then - 1 else 1) * foldl (\<lambda>a d. a * int radix + int d) 0 ds))"

section \<open>Logging, requests and responses\<close>

text \<open>
  Modelled from the spec: the \<^verbatim>\<open>Logger\<close> class (\<^verbatim>\<open>src/utils/logger.ts\<close>) is not among the
  sources. Logging is the only side effect of the verifier and the dispatcher; a call
  \<^verbatim>\<open>logger.warn(msg)\<close> is recorded as the entry \<open>Log Warn msg\<close>, in the order of the calls.
  The exception handed to \<^verbatim>\<open>logger.error\<close> as a second argument is not recorded.
\<close>

datatype log_level = Info | Warn | Error

datatype log_entry = Log log_level string

text \<open>\<^verbatim>\<open>res.status(n).json(v)\<close>; \<^verbatim>\<open>res.json(v)\<close> answers with status 200.\<close>

datatype response = Response nat json

text \<open>
  The request. The webhook code reads three things of it: the headers (Node gives them
  lower-case names), the parsed body \<^verbatim>\<open>req.body\<close> (\<^const>\<open>None\<close> when no body parser has set it)
  and the errors \<^verbatim>\<open>validationResult(req)\<close> reports for the validation chain that Express has
  run in front of the \<^verbatim>\<open>/licensechain\<close> handler. \<open>raw_body\<close> is the body as the sender sent
  it, the text \<^verbatim>\<open>express.json()\<close> has parsed into \<^verbatim>\<open>req.body\<close>; the webhook code never sees it.
\<close>

record request =
  headers :: "string \<rightharpoonup> string"
  raw_body :: string
  body :: "json option"
  validation_errors :: "json list"

text \<open>An optional property of an object: the object has no such key, it has the key with the
  value \<^verbatim>\<open>undefined\<close>, or it has it with a value. The type \<^verbatim>\<open>tolerance?: number\<close> admits all
  three.\<close>

datatype 'a property = Absent | Undefined | Value 'a

record WebhookConfig =
  secret :: string
  tolerance :: "rat number property"

text \<open>Modelled from the spec: a correctly signed request (sections 4.1 and 6 of the
  specification) is one whose signature header is the hexadecimal HMAC-SHA256 of the raw
  body under the secret.\<close>

definition correctly_signed :: "string \<Rightarrow> request \<Rightarrow> bool" where
  "correctly_signed s req =
     (headers req ''x-licensechain-signature'' = Some (hmac_sha256_hex s (raw_body req)))"

section \<open>The verifier: \<^verbatim>\<open>WebhookHandler.verifyWebhook\<close>\<close>

text \<open>The constructor \<^verbatim>\<open>this.config = { tolerance: 300, ...config }\<close>; the result is
  \<^verbatim>\<open>this.config\<close>. The spread copies every key \<^verbatim>\<open>config\<close> has, so the 300 stays only when
  \<^verbatim>\<open>config\<close> has no \<^verbatim>\<open>tolerance\<close> key; a key with the value \<^verbatim>\<open>undefined\<close> replaces it.\<close>

definition new_WebhookHandler :: "WebhookConfig \<Rightarrow> WebhookConfig" where
  "new_WebhookHandler config =
     (case tolerance config of
        Absent \<Rightarrow> config\<lparr>tolerance := Value (Finite 300)\<rparr>
      | _ \<Rightarrow> config)"

datatype middleware_result = Responded response | CallNext

definition unauthorized :: "string \<Rightarrow> log_entry list \<times> middleware_result" where
  "unauthorized msg =
     ([Log Warn msg],
      Responded (Response 401 (JObj [(''success'', JBool False), (''error'', JStr msg)])))"

text \<open>\<^verbatim>\<open>Math.abs(currentTime - webhookTime)\<close>: the difference of two integers, rounded to a
  double.\<close>

definition abs_difference :: "int \<Rightarrow> int number \<Rightarrow> int number" where
  "abs_difference currentTime webhookTime =
     (case webhookTime of
        NaN \<Rightarrow> NaN
      | PlusInfinity \<Rightarrow> PlusInfinity
      | MinusInfinity \<Rightarrow> PlusInfinity
      | Finite t \<Rightarrow> round_double \<bar>currentTime - t\<bar>)"

text \<open>\<^verbatim>\<open>Math.abs(currentTime - webhookTime) > this.config.tolerance\<close>: \<^verbatim>\<open>undefined\<close> counts as
  \<^verbatim>\<open>NaN\<close> in a comparison, which is then false.\<close>

definition outside_tolerance :: "int \<Rightarrow> int number \<Rightarrow> rat number property \<Rightarrow> bool" where
  "outside_tolerance currentTime webhookTime tol =
     (case tol of
        Value t \<Rightarrow> greater (abs_difference currentTime webhookTime) t
      | _ \<Rightarrow> False)"

text \<open>\<^verbatim>\<open>const payload = JSON.stringify(req.body)\<close>, the text both the verifier and the
  \<^verbatim>\<open>/licensechain\<close> route sign.\<close>

definition signing_payload :: "request \<Rightarrow> string option" where
  "signing_payload req = map_option JSON_stringify (body req)"

text \<open>The body of the \<^verbatim>\<open>try\<close> block. \<open>now\<close> is \<^verbatim>\<open>Date.now()\<close>, in milliseconds: a time
  value is an integer of at most \<open>8.64 \<times> 10\<^sup>1\<^sup>5\<close> in absolute value, for which
  \<^verbatim>\<open>Math.floor(Date.now() / 1000)\<close> is exactly \<open>now div 1000\<close>. Hashing \<^verbatim>\<open>undefined\<close> (no body)
  throws a \<^verbatim>\<open>TypeError\<close>.\<close>

definition verifyWebhook_try ::
  "WebhookConfig \<Rightarrow> int \<Rightarrow> request \<Rightarrow> js_error + (log_entry list \<times> middleware_result)" where
  "verifyWebhook_try config now req =
     (case headers req ''x-licensechain-signature'' of
        None \<Rightarrow> Inr (unauthorized ''Missing webhook signature or timestamp'')
      | Some signature \<Rightarrow>
     (case headers req ''x-licensechain-timestamp'' of
        None \<Rightarrow> Inr (unauthorized ''Missing webhook signature or timestamp'')
      | Some timestamp \<Rightarrow>
          if signature = [] \<or> timestamp = []
          then Inr (unauthorized ''Missing webhook signature or timestamp'')
          else
            let currentTime = now div 1000;
                webhookTime = parseInt timestamp
            in if outside_tolerance currentTime webhookTime (tolerance config)
               then Inr (unauthorized ''Webhook timestamp too old'')
               else
                 (case signing_payload req of
                    None \<Rightarrow> Inl TypeError
                  | Some payload \<Rightarrow>
                      let expectedSignature = createSignature payload (secret config)
                      in (case timingSafeEqual (hex_decode signature) (hex_decode expectedSignature) of
                            Inl e \<Rightarrow> Inl e
                          | Inr equal \<Rightarrow>
                              if \<not> equal then Inr (unauthorized ''Invalid webhook signature'')
                              else Inr ([Log Info ''Webhook signature verified successfully''],
                                        CallNext)))))"

definition verifyWebhook ::
  "WebhookConfig \<Rightarrow> int \<Rightarrow> request \<Rightarrow> log_entry list \<times> middleware_result" where
  "verifyWebhook config now req =
     (case verifyWebhook_try config now req of
        Inr r \<Rightarrow> r
      | Inl e \<Rightarrow>
          ([Log Error ''Error verifying webhook:''],
           Responded (Response 500 (JObj [(''success'', JBool False),
                                          (''error'', JStr ''Webhook verification failed'')]))))"

definition webhookMiddleware :: "string \<Rightarrow> int \<Rightarrow> request \<Rightarrow> log_entry list \<times> middleware_result" where
  "webhookMiddleware s = verifyWebhook (new_WebhookHandler \<lparr>secret = s, tolerance = Absent\<rparr>)"

section \<open>The dispatcher: \<^verbatim>\<open>WebhookHandler.processWebhookEvent\<close>\<close>

record WebhookEvent =
  event_id :: string
  event_type :: string
  event_data :: "json option"
  event_timestamp :: string
  event_sellerId :: string

text \<open>A handler that logs one line with one or two properties of \<^verbatim>\<open>data\<close> in it, as every
  handler of the class and of the route does. Reading a property of a \<^verbatim>\<open>data\<close> that is
  \<^verbatim>\<open>undefined\<close> or \<^verbatim>\<open>null\<close>, and turning a value into a string, can throw, and then
  nothing is logged.\<close>

definition info1 :: "string \<Rightarrow> json option \<Rightarrow> string \<Rightarrow> js_error + log_entry list" where
  "info1 text1 d k1 =
     (case member d k1 of
        Inl e \<Rightarrow> Inl e
      | Inr v1 \<Rightarrow> (case template v1 of
                     Inl e \<Rightarrow> Inl e
                   | Inr s1 \<Rightarrow> Inr [Log Info (text1 @ s1)]))"

definition info2 ::
  "string \<Rightarrow> json option \<Rightarrow> string \<Rightarrow> string \<Rightarrow> string \<Rightarrow> js_error + log_entry list" where
  "info2 text1 d k1 text2 k2 =
     (case member d k1 of
        Inl e \<Rightarrow> Inl e
      | Inr v1 \<Rightarrow>
     (case template v1 of
        Inl e \<Rightarrow> Inl e
      | Inr s1 \<Rightarrow>
     (case member d k2 of
        Inl e \<Rightarrow> Inl e
      | Inr v2 \<Rightarrow>
     (case template v2 of
        Inl e \<Rightarrow> Inl e
      | Inr s2 \<Rightarrow> Inr [Log Info (text1 @ s1 @ text2 @ s2)]))))"

datatype handler =
    HandleLicenseCreated | HandleLicenseUpdated | HandleLicenseRevoked | HandleLicenseExpired
  | HandlePaymentCompleted | HandlePaymentFailed | HandlePaymentRefunded
  | HandleUserCreated | HandleUserUpdated | HandleProductCreated | HandleProductUpdated

text \<open>The private methods \<^verbatim>\<open>handleLicenseCreated\<close> ... \<^verbatim>\<open>handleProductUpdated\<close>.\<close>

fun run_handler :: "handler \<Rightarrow> WebhookEvent \<Rightarrow> js_error + log_entry list" where
  "run_handler HandleLicenseCreated event =
     info2 ''License created: '' (event_data event) ''id'' '' for user '' ''userId''"
| "run_handler HandleLicenseUpdated event = info1 ''License updated: '' (event_data event) ''id''"
| "run_handler HandleLicenseRevoked event = info1 ''License revoked: '' (event_data event) ''id''"
| "run_handler HandleLicenseExpired event = info1 ''License expired: '' (event_data event) ''id''"
| "run_handler HandlePaymentCompleted event =
     info2 ''Payment completed: '' (event_data event) ''id'' '' for license '' ''licenseId''"
| "run_handler HandlePaymentFailed event =
     info2 ''Payment failed: '' (event_data event) ''id'' '' for license '' ''licenseId''"
| "run_handler HandlePaymentRefunded event =
     info2 ''Payment refunded: '' (event_data event) ''id'' '' for license '' ''licenseId''"
| "run_handler HandleUserCreated event = info1 ''User created: '' (event_data event) ''id''"
| "run_handler HandleUserUpdated event = info1 ''User updated: '' (event_data event) ''id''"
| "run_handler HandleProductCreated event =
     info2 ''Product created: '' (event_data event) ''id'' '' for seller '' ''sellerId''"
| "run_handler HandleProductUpdated event = info1 ''Product updated: '' (event_data event) ''id''"

text \<open>The \<^verbatim>\<open>case\<close> labels of the \<^verbatim>\<open>switch (event.type)\<close>, in their order; \<^const>\<open>None\<close> is the
  \<^verbatim>\<open>default\<close> branch.\<close>

definition handler_for :: "string \<Rightarrow> handler option" where
  "handler_for t =
     (if t = ''license.created'' then Some HandleLicenseCreated
      else if t = ''license.updated'' then Some HandleLicenseUpdated
      else if t = ''license.revoked'' then Some HandleLicenseRevoked
      else if t = ''license.expired'' then Some HandleLicenseExpired
      else if t = ''payment.completed'' then Some HandlePaymentCompleted
      else if t = ''payment.failed'' then Some HandlePaymentFailed
      else if t = ''payment.refunded'' then Some HandlePaymentRefunded
      else if t = ''user.created'' then Some HandleUserCreated
      else if t = ''user.updated'' then Some HandleUserUpdated
      else if t = ''product.created'' then Some HandleProductCreated
      else if t = ''product.updated'' then Some HandleProductUpdated
      else None)"

text \<open>What one call of \<^verbatim>\<open>processWebhookEvent\<close> does: the lines it appends to the log, the
  handler it calls (if any) and the exception it throws (if any). The method reads and
  writes no field of the object besides the logger.\<close>

record dispatch_result =
  logged :: "log_entry list"
  invoked :: "handler option"
  thrown :: "js_error option"

definition processWebhookEvent :: "log_entry list \<Rightarrow> WebhookEvent \<Rightarrow> dispatch_result" where
  "processWebhookEvent lg event =
     (let lg1 = lg @ [Log Info (''Processing webhook event: '' @ event_type event
                                @ '' for seller '' @ event_sellerId event)]
      in case handler_for (event_type event) of
           None \<Rightarrow>
             \<lparr>logged = lg1 @ [Log Warn (''Unknown webhook event type: '' @ event_type event)],
              invoked = None, thrown = None\<rparr>
         | Some h \<Rightarrow>
             (case run_handler h event of
                Inl e \<Rightarrow> \<lparr>logged = lg1, invoked = Some h, thrown = Some e\<rparr>
              | Inr ls \<Rightarrow> \<lparr>logged = lg1 @ ls, invoked = Some h, thrown = None\<rparr>))"

section \<open>The route \<^verbatim>\<open>POST /licensechain\<close> (\<^verbatim>\<open>src/routes/webhooks.ts\<close>)\<close>

datatype route_handler =
    LicenseCreated | LicenseUpdated | LicenseDeleted | UserRegistered | UserUpdated
  | ApplicationCreated | ApplicationUpdated

text \<open>The route's own handlers, each \<^verbatim>\<open>logger.info(`...: ${data.id}`)\<close>.\<close>

fun run_route_handler :: "route_handler \<Rightarrow> json option \<Rightarrow> js_error + log_entry list" where
  "run_route_handler LicenseCreated d = info1 ''License created: '' d ''id''"
| "run_route_handler LicenseUpdated d = info1 ''License updated: '' d ''id''"
| "run_route_handler LicenseDeleted d = info1 ''License deleted: '' d ''id''"
| "run_route_handler UserRegistered d = info1 ''User registered: '' d ''id''"
| "run_route_handler UserUpdated d = info1 ''User updated: '' d ''id''"
| "run_route_handler ApplicationCreated d = info1 ''Application created: '' d ''id''"
| "run_route_handler ApplicationUpdated d = info1 ''Application updated: '' d ''id''"

text \<open>\<^verbatim>\<open>switch (event)\<close> compares with \<^verbatim>\<open>===\<close>: only a string can reach a \<^verbatim>\<open>case\<close>.\<close>

definition route_handler_for :: "json option \<Rightarrow> route_handler option" where
  "route_handler_for ev =
     (case ev of
        Some (JStr t) \<Rightarrow>
          if t = ''license.created'' then Some LicenseCreated
          else if t = ''license.updated'' then Some LicenseUpdated
          else if t = ''license.deleted'' then Some LicenseDeleted
          else if t = ''user.registered'' then Some UserRegistered
          else if t = ''user.updated'' then Some UserUpdated
          else if t = ''application.created'' then Some ApplicationCreated
          else if t = ''application.updated'' then Some ApplicationUpdated
          else None
      | _ \<Rightarrow> None)"

record route_result =
  route_logged :: "log_entry list"
  route_invoked :: "route_handler option"
  route_outcome :: "js_error + response"

definition route_reject :: "log_entry list \<Rightarrow> response \<Rightarrow> route_result" where
  "route_reject lg r = \<lparr>route_logged = lg, route_invoked = None, route_outcome = Inr r\<rparr>"

text \<open>The body of the handler's \<^verbatim>\<open>try\<close> block; \<open>s\<close> is \<^verbatim>\<open>config.webhooks.secret\<close>. The
  destructuring \<^verbatim>\<open>const { event, data, timestamp } = req.body\<close> throws on \<^verbatim>\<open>undefined\<close> and
  \<^verbatim>\<open>null\<close>; the template literal of the first log line turns \<^verbatim>\<open>event\<close> into a
  string.\<close>

definition licensechain_try :: "string \<Rightarrow> request \<Rightarrow> route_result" where
  "licensechain_try s req =
     (if validation_errors req \<noteq> []
      then route_reject [] (Response 400 (JObj [(''errors'', JArr (validation_errors req))]))
      else
        (case member (body req) ''event'' of
           Inl e \<Rightarrow> \<lparr>route_logged = [], route_invoked = None, route_outcome = Inl e\<rparr>
         | Inr event \<Rightarrow>
        (case member (body req) ''data'' of
           Inl e \<Rightarrow> \<lparr>route_logged = [], route_invoked = None, route_outcome = Inl e\<rparr>
         | Inr d \<Rightarrow>
        (case signing_payload req of
           None \<Rightarrow> \<lparr>route_logged = [], route_invoked = None, route_outcome = Inl TypeError\<rparr>
         | Some payload \<Rightarrow>
             let signature = headers req ''x-licensechain-signature'';
                 expectedSignature = hmac_sha256_hex s payload
             in if signature \<noteq> Some (''sha256='' @ expectedSignature)
                then route_reject [Log Warn ''Invalid LicenseChain webhook signature'']
                       (Response 400 (JObj [(''error'', JStr ''Invalid signature'')]))
                else
                  (case template event of
                     Inl e \<Rightarrow>
                       \<lparr>route_logged = [], route_invoked = None, route_outcome = Inl e\<rparr>
                   | Inr name \<Rightarrow>
                  let lg1 = [Log Info (''LicenseChain webhook received: '' @ name)]
                  in (case route_handler_for event of
                        None \<Rightarrow>
                          \<lparr>route_logged =
                             lg1 @ [Log Info (''Unhandled LicenseChain event type: '' @ name)],
                           route_invoked = None,
                           route_outcome = Inr (Response 200 (JObj [(''received'', JBool True)]))\<rparr>
                      | Some h \<Rightarrow>
                          (case run_route_handler h d of
                             Inl e \<Rightarrow>
                               \<lparr>route_logged = lg1, route_invoked = Some h, route_outcome = Inl e\<rparr>
                           | Inr ls \<Rightarrow>
                               \<lparr>route_logged = lg1 @ ls, route_invoked = Some h,
                                route_outcome =
                                  Inr (Response 200 (JObj [(''received'', JBool True)]))\<rparr>)))))))"

text \<open>The handler with its \<^verbatim>\<open>catch\<close>: what was logged, which handler ran, the response.\<close>

definition licensechain_route ::
  "string \<Rightarrow> request \<Rightarrow> log_entry list \<times> route_handler option \<times> response" where
  "licensechain_route s req =
     (let r = licensechain_try s req
      in case route_outcome r of
           Inr resp \<Rightarrow> (route_logged r, route_invoked r, resp)
         | Inl e \<Rightarrow>
             (route_logged r @ [Log Error ''Error processing LicenseChain webhook:''],
              route_invoked r,
              Response 500 (JObj [(''error'', JStr ''Webhook processing failed'')])))"

section \<open>Example requests\<close>

text \<open>
  The scenario of the specification: the secret \<^verbatim>\<open>s3cr3t\<close>, a \<^verbatim>\<open>license.created\<close> event for
  \<^verbatim>\<open>lic_1\<close>, received at 2024-01-01T00:00:00Z (1704067200 seconds after the epoch).
\<close>

definition example_body :: json where
  "example_body =
     JObj [(''event'', JStr ''license.created''),
           (''data'', JObj [(''id'', JStr ''lic_1'')]),
           (''timestamp'', JStr ''2024-01-01T00:00:00Z''),
           (''sellerId'', JStr ''seller_1'')]"

definition example_config :: WebhookConfig where
  "example_config = \<lparr>secret = ''s3cr3t'', tolerance = Absent\<rparr>"

definition example_now :: int where
  "example_now = 1704067200000"

text \<open>A JSON string token with nothing to escape in it.\<close>

definition dq :: "string \<Rightarrow> string" where
  "dq s = CHR 0x22 # s @ [CHR 0x22]"

text \<open>Two texts of the example body: without white space, as \<^verbatim>\<open>JSON.stringify\<close> writes it,
  and with a blank after each colon and comma, as Python's \<^verbatim>\<open>json.dumps\<close> writes it.
  \<^verbatim>\<open>JSON.parse\<close> reads both as \<^const>\<open>example_body\<close>.\<close>

definition compact_text :: string where
  "compact_text =
     ''{'' @ dq ''event'' @ '':'' @ dq ''license.created'' @ '','' @
     dq ''data'' @ '':{'' @ dq ''id'' @ '':'' @ dq ''lic_1'' @ ''},'' @
     dq ''timestamp'' @ '':'' @ dq ''2024-01-01T00:00:00Z'' @ '','' @
     dq ''sellerId'' @ '':'' @ dq ''seller_1'' @ ''}''"

definition spaced_text :: string where
  "spaced_text =
     ''{'' @ dq ''event'' @ '': '' @ dq ''license.created'' @ '', '' @
     dq ''data'' @ '': {'' @ dq ''id'' @ '': '' @ dq ''lic_1'' @ ''}, '' @
     dq ''timestamp'' @ '': '' @ dq ''2024-01-01T00:00:00Z'' @ '', '' @
     dq ''sellerId'' @ '': '' @ dq ''seller_1'' @ ''}''"

text \<open>The example body sent without white space, with a signature and a timestamp header
  that are left open; and sent with blanks by a sender that signs the bytes it sends, at the
  moment of \<^const>\<open>example_now\<close>.\<close>

definition example_request :: "string \<Rightarrow> string \<Rightarrow> request" where
  "example_request sg ts =
     \<lparr>headers = [''x-licensechain-signature'' \<mapsto> sg, ''x-licensechain-timestamp'' \<mapsto> ts],
      raw_body = compact_text, body = Some example_body, validation_errors = []\<rparr>"

definition spaced_request :: request where
  "spaced_request =
     \<lparr>headers = [''x-licensechain-signature'' \<mapsto> hmac_sha256_hex ''s3cr3t'' spaced_text,
                 ''x-licensechain-timestamp'' \<mapsto> ''1704067200''],
      raw_body = spaced_text, body = Some example_body, validation_errors = []\<rparr>"

text \<open>The same sender addressing the \<^verbatim>\<open>/licensechain\<close> route, which wants the prefix
  \<^verbatim>\<open>sha256=\<close> in front of the digest.\<close>

definition spaced_route_request :: request where
  "spaced_route_request =
     \<lparr>headers = [''x-licensechain-signature'' \<mapsto>
                   ''sha256='' @ hmac_sha256_hex ''s3cr3t'' spaced_text],
      raw_body = spaced_text, body = Some example_body, validation_errors = []\<rparr>"

text \<open>An event of a kind the class has no \<^verbatim>\<open>case\<close> for, with no \<^verbatim>\<open>data\<close> at all, and a
  body whose \<^verbatim>\<open>event\<close> the route has no \<^verbatim>\<open>case\<close> for.\<close>

definition unknown_event :: WebhookEvent where
  "unknown_event =
     \<lparr>event_id = ''evt_1'', event_type = ''invoice.created'', event_data = None,
      event_timestamp = ''2024-01-01T00:00:00Z'', event_sellerId = ''seller_1''\<rparr>"

definition known_event :: WebhookEvent where
  "known_event =
     \<lparr>event_id = ''evt_2'', event_type = ''license.created'',
      event_data = Some (JObj [(''id'', JStr ''lic_1''), (''userId'', JStr ''u_7'')]),
      event_timestamp = ''2024-01-01T00:00:00Z'', event_sellerId = ''seller_1''\<rparr>"

definition revoked_body :: json where
  "revoked_body =
     JObj [(''event'', JStr ''license.revoked''),
           (''data'', JObj [(''id'', JStr ''lic_1'')]),
           (''timestamp'', JStr ''2024-01-01T00:00:00Z'')]"

definition revoked_request :: request where
  "revoked_request =
     \<lparr>headers = [''x-licensechain-signature'' \<mapsto>
                   ''sha256='' @ hmac_sha256_hex ''s3cr3t'' (JSON_stringify revoked_body)],
      raw_body = JSON_stringify revoked_body, body = Some revoked_body,
      validation_errors = []\<rparr>"

section \<open>Facts about the library model\<close>

lemma sha256_length: "length (sha256 m) = 32"
  by (simp add: sha256_def Let_def word_bytes_def split: prod.splits)

lemma hmac_sha256_length: "length (hmac_sha256 k m) = 32"
  by (simp add: hmac_sha256_def Let_def sha256_length)

lemma hex_val_hex_digit: "n < 16 \<Longrightarrow> hex_val (hex_digit n) = Some n"
  by (auto simp: hex_val_def hex_digit_def Let_def)

lemma byte_nibbles: "of_nat (16 * (unat b div 16) + unat b mod 16) = (b :: byte)"
  by simp

lemma unat_byte_div16: "unat (b :: byte) div 16 < 16"
proof -
  have "unat b < 256" using unsigned_less [of b] by simp
  then show ?thesis by simp
qed

lemma hex_decode_encode: "hex_decode (hex_encode bs) = bs"
proof (induction bs)
  case Nil
  then show ?case by (simp add: hex_encode_def)
next
  case (Cons b bs)
  have "hex_encode (b # bs) = hex_digit (unat b div 16) # hex_digit (unat b mod 16) # hex_encode bs"
    by (simp add: hex_encode_def)
  with Cons show ?case
    by (simp add: hex_val_hex_digit unat_byte_div16 byte_nibbles del: of_nat_add of_nat_mult)
qed

lemma hex_encode_length: "length (hex_encode bs) = 2 * length bs"
  by (induction bs) (simp_all add: hex_encode_def)

lemma hmac_sha256_hex_length: "length (hmac_sha256_hex s p) = 64"
  by (simp add: hmac_sha256_hex_def hex_encode_length hmac_sha256_length)

lemma hex_decode_hmac_hex: "hex_decode (hmac_sha256_hex s p) = hmac_sha256 (utf8 s) (utf8 p)"
  by (simp add: hmac_sha256_hex_def hex_decode_encode)

lemma verifySignature_iff:
  "verifySignature p sg s =
     (if length (hex_decode sg) = 32 then Inr (hex_decode sg = hmac_sha256 (utf8 s) (utf8 p))
      else Inl RangeError)"
  by (simp add: verifySignature_def createSignature_def timingSafeEqual_def
      hex_decode_hmac_hex hmac_sha256_length)

lemma verifyWebhookSignature_eq: "verifyWebhookSignature p sg s = verifySignature p sg s"
  by (simp add: verifyWebhookSignature_def verifySignature_def createWebhookSignature_def
      createSignature_def)

section \<open>Facts about numbers\<close>

lemma bit_length_bound: "0 \<le> a \<Longrightarrow> a < 2 ^ n \<Longrightarrow> bit_length a \<le> n"
proof (induction n arbitrary: a)
  case 0
  then have "a = 0" by simp
  then show ?case by (simp add: bit_length.simps)
next
  case (Suc n)
  show ?case
  proof (cases "a \<le> 0")
    case True
    then show ?thesis by (simp add: bit_length.simps)
  next
    case False
    with Suc.prems have "0 \<le> a div 2" "a div 2 < 2 ^ n" by auto
    then have "bit_length (a div 2) \<le> n" by (rule Suc.IH)
    with False show ?thesis by (simp add: bit_length.simps [of a])
  qed
qed

lemma round_double_small: "\<bar>k\<bar> < 2 ^ 53 \<Longrightarrow> round_double k = Finite k"
proof -
  assume k: "\<bar>k\<bar> < 2 ^ 53"
  then have "bit_length \<bar>k\<bar> \<le> 53" by (intro bit_length_bound) simp_all
  then have e: "bit_length \<bar>k\<bar> - 53 = 0" by simp
  have "(2 :: int) ^ 53 \<le> 2 ^ 1024" by (rule power_increasing) simp_all
  with k have b: "\<not> 2 ^ 1024 \<le> \<bar>k\<bar>" by linarith
  have "round_double k = (if 2 ^ 1024 \<le> \<bar>k\<bar> then (if k < 0 then MinusInfinity else PlusInfinity)
                          else Finite (if k < 0 then - \<bar>k\<bar> else \<bar>k\<bar>))"
    unfolding round_double_def Let_def e by simp
  also have "\<dots> = Finite (if k < 0 then - \<bar>k\<bar> else \<bar>k\<bar>)"
    using b by (simp only: if_False)
  also have "\<dots> = Finite k" by simp
  finally show ?thesis .
qed

lemma example_parse:
  "parseInt ''1704067200'' = Finite 1704067200"
  "parseInt ''1704066600'' = Finite 1704066600"
  "parseInt ''0'' = Finite 0"
  "parseInt ''not-a-timestamp'' = NaN"
  by (simp_all add: parseInt_def js_whitespace_def digit_val_def hex_val_def round_double_small)

lemma example_windows:
  "\<not> outside_tolerance (example_now div 1000) (Finite 1704067200) (Value (Finite 300))"
  "outside_tolerance (example_now div 1000) (Finite 1704066600) (Value (Finite 300))"
  "outside_tolerance (example_now div 1000) (Finite 0) (Value (Finite 300))"
  "\<not> outside_tolerance (example_now div 1000) NaN (Value (Finite 300))"
  "\<not> outside_tolerance (example_now div 1000) (Finite 1704066600) Undefined"
  by (simp_all add: outside_tolerance_def abs_difference_def example_now_def round_double_small)


section \<open>The digests of the examples\<close>

text \<open>
  The HMAC of the two texts of the example body under the secret \<^verbatim>\<open>s3cr3t\<close>, one compression at
  a time. The simplifier computes a compression on numerals; after every addition the sum is
  put under \<open>word_of_int (uint _)\<close>, which is the identity on words and makes the simplifier
  reduce the numeral modulo \<open>2\<^sup>3\<^sup>2\<close>.
\<close>

lemma schedule_red:
  "schedule (numeral k) ws =
     schedule (pred_numeral k)
       (word_of_int (uint (ssig1 (ws ! 1) + ws ! 6 + ssig0 (ws ! 14) + ws ! 15)) # ws)"
  "schedule (Suc 0) ws =
     word_of_int (uint (ssig1 (ws ! 1) + ws ! 6 + ssig0 (ws ! 14) + ws ! 15)) # ws"
  by (simp_all add: numeral_eq_Suc)

lemma sha_round_red:
  "sha_round (a, b, c, d, e, f, g, h) (k, w) =
     (word_of_int (uint (h + bsig1 e + Ch e f g + k + w + (bsig0 a + Maj a b c))), a, b, c,
      word_of_int (uint (d + (h + bsig1 e + Ch e f g + k + w))), e, f, g)"
  by (simp add: sha_round_def Let_def)

lemma compress_red:
  "compress (a, b, c, d, e, f, g, h) block =
     (case foldl sha_round (a, b, c, d, e, f, g, h)
             (zip sha256_K (rev (schedule 48 (rev (be_words block))))) of
        (a', b', c', d', e', f', g', h') \<Rightarrow>
          (word_of_int (uint (a + a')), word_of_int (uint (b + b')),
           word_of_int (uint (c + c')), word_of_int (uint (d + d')),
           word_of_int (uint (e + e')), word_of_int (uint (f + f')),
           word_of_int (uint (g + g')), word_of_int (uint (h + h'))))"
  by (simp add: compress_def Let_def)

lemmas sha_eval =
  compress_red schedule_red sha_round_red ssig0_def ssig1_def bsig0_def bsig1_def Ch_def Maj_def
  rotr_def sha256_K_def sha256_H0_def word_bytes_def len_bytes_def utf8_def utf8_char_def

lemma replicate_numeral: "replicate (numeral k) x = x # replicate (pred_numeral k) x"
  by (simp add: numeral_eq_Suc)

lemma sha_blocks_numeral:
  "sha_blocks (numeral k) s bs = sha_blocks (pred_numeral k) (compress s (take 64 bs)) (drop 64 bs)"
  by (simp add: numeral_eq_Suc)

lemma sha256_blocks2:
  assumes "sha_pad m = b1 @ b2" "length b1 = 64" "length b2 = 64"
    and "compress (compress sha256_H0 b1) b2 = (a, b, c, d, e, f, g, h)"
  shows "sha256 m = concat (map word_bytes [a, b, c, d, e, f, g, h])"
  using assms by (simp add: sha256_def sha_blocks_numeral)

lemma sha256_blocks3:
  assumes "sha_pad m = b1 @ b2 @ b3" "length b1 = 64" "length b2 = 64" "length b3 = 64"
    and "compress (compress (compress sha256_H0 b1) b2) b3 = (a, b, c, d, e, f, g, h)"
  shows "sha256 m = concat (map word_bytes [a, b, c, d, e, f, g, h])"
  using assms by (simp add: sha256_def sha_blocks_numeral)

text \<open>The two key blocks of the HMAC under the secret \<^verbatim>\<open>s3cr3t\<close>.\<close>

lemma utf8_secret: "utf8 ''s3cr3t'' = [0x73, 0x33, 0x63, 0x72, 0x33, 0x74]"
  by (simp add: utf8_def utf8_char_def)

lemma ipad_state:
  "compress sha256_H0
     (map (\<lambda>b. b XOR 0x36) (utf8 ''s3cr3t'' @ replicate 58 0)) =
     (0xb9773b7e, 0xed09cd5c, 0x3cca2f80, 0x0a65569e,
      0xd608ac4e, 0xe4c3e1b2, 0x55b00bed, 0xe738184c)"
  by (simp add: replicate_numeral sha_eval)

lemma opad_state:
  "compress sha256_H0
     (map (\<lambda>b. b XOR 0x5c) (utf8 ''s3cr3t'' @ replicate 58 0)) =
     (0x1c4ce9eb, 0x086bb583, 0xfe6b972e, 0xdae35e2f,
      0x24e88bbc, 0x912da6a5, 0x10f4758a, 0xb7425d0f)"
  by (simp add: replicate_numeral sha_eval)

text \<open>The HMAC of the example body as \<^verbatim>\<open>JSON.stringify\<close> writes it.\<close>

lemma length_compact: "length (utf8 compact_text) = 106"
  by (simp add: compact_text_def dq_def utf8_def utf8_char_def)

lemma compact_block1:
  "compress (0xb9773b7e, 0xed09cd5c, 0x3cca2f80, 0x0a65569e,
      0xd608ac4e, 0xe4c3e1b2, 0x55b00bed, 0xe738184c)
     (take 64 (utf8 compact_text)) =
     (0x9965701a, 0x70a2c693, 0xb76bdd01, 0x5187fc53,
      0x04969ab1, 0x85b354eb, 0x23ea04a9, 0x80477de4)"
  by (simp add: compact_text_def dq_def sha_eval)

lemma compact_block2:
  "compress (0x9965701a, 0x70a2c693, 0xb76bdd01, 0x5187fc53,
      0x04969ab1, 0x85b354eb, 0x23ea04a9, 0x80477de4)
     (drop 64 (utf8 compact_text) @ [0x80] @ replicate 13 0 @ len_bytes 1360) =
     (0x27788611, 0xb0c8e381, 0x3e1dfe8d, 0x2ac9582f,
      0xcebdbbf2, 0xf688c48c, 0xca3cfb27, 0xfa39cda5)"
  by (simp add: compact_text_def dq_def replicate_numeral sha_eval)

lemma compact_outer:
  "compress (0x1c4ce9eb, 0x086bb583, 0xfe6b972e, 0xdae35e2f,
      0x24e88bbc, 0x912da6a5, 0x10f4758a, 0xb7425d0f)
     (concat (map word_bytes
              [0x27788611, 0xb0c8e381, 0x3e1dfe8d, 0x2ac9582f,
               0xcebdbbf2, 0xf688c48c, 0xca3cfb27, 0xfa39cda5])
      @ [0x80] @ replicate 23 0 @ len_bytes 768) =
     (0x590244a9, 0x68979322, 0x071d4fc2, 0xc577c2a5,
      0xba91800e, 0xbf528e8e, 0x70c8d88c, 0xf51fc634)"
  by (simp add: replicate_numeral sha_eval)

lemma hmac_compact:
  "hmac_sha256_hex ''s3cr3t'' compact_text
     = ''590244a968979322071d4fc2c577c2a5ba91800ebf528e8e70c8d88cf51fc634''"
proof -
  let ?ib =
    "map (\<lambda>b. b XOR 0x36) (utf8 ''s3cr3t'' @ replicate 58 0)"
  let ?ob =
    "map (\<lambda>b. b XOR 0x5c) (utf8 ''s3cr3t'' @ replicate 58 0)"
  let ?b2 = "take 64 (utf8 compact_text)"
  let ?b3 =
    "drop 64 (utf8 compact_text) @ [0x80] @ replicate 13 0 @ len_bytes 1360"
  let ?inner =
    "concat (map word_bytes
              [0x27788611, 0xb0c8e381, 0x3e1dfe8d, 0x2ac9582f,
               0xcebdbbf2, 0xf688c48c, 0xca3cfb27, 0xfa39cda5])"
  let ?b4 = "?inner @ [0x80] @ replicate 23 0 @ len_bytes 768"
  have l: "length ?ib = 64" "length ?ob = 64" "length ?b2 = 64" "length ?b3 = 64"
    "length ?b4 = 64"
    by (simp_all add: utf8_secret length_compact len_bytes_def word_bytes_def)
  have p: "sha_pad (?ib @ utf8 compact_text) = ?ib @ ?b2 @ ?b3"
    by (simp add: sha_pad_def length_compact utf8_secret)
  have c: "compress (compress (compress sha256_H0 ?ib) ?b2) ?b3
             = (0x27788611, 0xb0c8e381, 0x3e1dfe8d, 0x2ac9582f,
      0xcebdbbf2, 0xf688c48c, 0xca3cfb27, 0xfa39cda5)"
    by (simp only: ipad_state compact_block1 compact_block2)
  note i = sha256_blocks3 [OF p l(1) l(3) l(4) c]
  have q: "sha_pad (?ob @ ?inner) = ?ob @ ?b4"
    by (simp add: sha_pad_def utf8_secret word_bytes_def)
  have e: "compress (compress sha256_H0 ?ob) ?b4
             = (0x590244a9, 0x68979322, 0x071d4fc2, 0xc577c2a5,
      0xba91800e, 0xbf528e8e, 0x70c8d88c, 0xf51fc634)"
    by (simp only: opad_state compact_outer)
  note o = sha256_blocks2 [OF q l(2) l(5) e]
  have k: "length (utf8 ''s3cr3t'') \<le> 64" "64 - length (utf8 ''s3cr3t'') = 58"
    by (simp_all add: utf8_secret)
  have d: "hmac_sha256 (utf8 ''s3cr3t'') (utf8 compact_text)
             = concat (map word_bytes [0x590244a9, 0x68979322, 0x071d4fc2, 0xc577c2a5,
               0xba91800e, 0xbf528e8e, 0x70c8d88c, 0xf51fc634])"
    unfolding hmac_sha256_def Let_def using k by (simp only: if_False not_less [symmetric] i o)
  have "hex_encode (concat (map word_bytes [0x590244a9, 0x68979322, 0x071d4fc2, 0xc577c2a5,
               0xba91800e, 0xbf528e8e, 0x70c8d88c, 0xf51fc634]))
          = ''590244a968979322071d4fc2c577c2a5ba91800ebf528e8e70c8d88cf51fc634''"
    by code_simp
  then show ?thesis by (simp only: hmac_sha256_hex_def d)
qed

text \<open>The HMAC of the example body with a blank after each colon and comma.\<close>

lemma length_spaced: "length (utf8 spaced_text) = 114"
  by (simp add: spaced_text_def dq_def utf8_def utf8_char_def)

lemma spaced_block1:
  "compress (0xb9773b7e, 0xed09cd5c, 0x3cca2f80, 0x0a65569e,
      0xd608ac4e, 0xe4c3e1b2, 0x55b00bed, 0xe738184c)
     (take 64 (utf8 spaced_text)) =
     (0xb4a99a67, 0x5f2fb4bb, 0x06587f50, 0xd66be5a1,
      0x47aa286f, 0xffacfc88, 0xe70f5ab7, 0xfa45097d)"
  by (simp add: spaced_text_def dq_def sha_eval)

lemma spaced_block2:
  "compress (0xb4a99a67, 0x5f2fb4bb, 0x06587f50, 0xd66be5a1,
      0x47aa286f, 0xffacfc88, 0xe70f5ab7, 0xfa45097d)
     (drop 64 (utf8 spaced_text) @ [0x80] @ replicate 5 0 @ len_bytes 1424) =
     (0x251f8e95, 0x4883cef6, 0x3c17689f, 0xf0949e39,
      0xb1d8dd15, 0x7cd207ee, 0xadc015db, 0xcbc80918)"
  by (simp add: spaced_text_def dq_def replicate_numeral sha_eval)

lemma spaced_outer:
  "compress (0x1c4ce9eb, 0x086bb583, 0xfe6b972e, 0xdae35e2f,
      0x24e88bbc, 0x912da6a5, 0x10f4758a, 0xb7425d0f)
     (concat (map word_bytes
              [0x251f8e95, 0x4883cef6, 0x3c17689f, 0xf0949e39,
               0xb1d8dd15, 0x7cd207ee, 0xadc015db, 0xcbc80918])
      @ [0x80] @ replicate 23 0 @ len_bytes 768) =
     (0x3ea637a8, 0xa2047d93, 0xa7a10675, 0x1cb350b4,
      0x6f79115f, 0x5136026f, 0x39d9adc7, 0x0a406417)"
  by (simp add: replicate_numeral sha_eval)

lemma hmac_spaced:
  "hmac_sha256_hex ''s3cr3t'' spaced_text
     = ''3ea637a8a2047d93a7a106751cb350b46f79115f5136026f39d9adc70a406417''"
proof -
  let ?ib =
    "map (\<lambda>b. b XOR 0x36) (utf8 ''s3cr3t'' @ replicate 58 0)"
  let ?ob =
    "map (\<lambda>b. b XOR 0x5c) (utf8 ''s3cr3t'' @ replicate 58 0)"
  let ?b2 = "take 64 (utf8 spaced_text)"
  let ?b3 =
    "drop 64 (utf8 spaced_text) @ [0x80] @ replicate 5 0 @ len_bytes 1424"
  let ?inner =
    "concat (map word_bytes
              [0x251f8e95, 0x4883cef6, 0x3c17689f, 0xf0949e39,
               0xb1d8dd15, 0x7cd207ee, 0xadc015db, 0xcbc80918])"
  let ?b4 = "?inner @ [0x80] @ replicate 23 0 @ len_bytes 768"
  have l: "length ?ib = 64" "length ?ob = 64" "length ?b2 = 64" "length ?b3 = 64"
    "length ?b4 = 64"
    by (simp_all add: utf8_secret length_spaced len_bytes_def word_bytes_def)
  have p: "sha_pad (?ib @ utf8 spaced_text) = ?ib @ ?b2 @ ?b3"
    by (simp add: sha_pad_def length_spaced utf8_secret)
  have c: "compress (compress (compress sha256_H0 ?ib) ?b2) ?b3
             = (0x251f8e95, 0x4883cef6, 0x3c17689f, 0xf0949e39,
      0xb1d8dd15, 0x7cd207ee, 0xadc015db, 0xcbc80918)"
    by (simp only: ipad_state spaced_block1 spaced_block2)
  note i = sha256_blocks3 [OF p l(1) l(3) l(4) c]
  have q: "sha_pad (?ob @ ?inner) = ?ob @ ?b4"
    by (simp add: sha_pad_def utf8_secret word_bytes_def)
  have e: "compress (compress sha256_H0 ?ob) ?b4
             = (0x3ea637a8, 0xa2047d93, 0xa7a10675, 0x1cb350b4,
      0x6f79115f, 0x5136026f, 0x39d9adc7, 0x0a406417)"
    by (simp only: opad_state spaced_outer)
  note o = sha256_blocks2 [OF q l(2) l(5) e]
  have k: "length (utf8 ''s3cr3t'') \<le> 64" "64 - length (utf8 ''s3cr3t'') = 58"
    by (simp_all add: utf8_secret)
  have d: "hmac_sha256 (utf8 ''s3cr3t'') (utf8 spaced_text)
             = concat (map word_bytes [0x3ea637a8, 0xa2047d93, 0xa7a10675, 0x1cb350b4,
               0x6f79115f, 0x5136026f, 0x39d9adc7, 0x0a406417])"
    unfolding hmac_sha256_def Let_def using k by (simp only: if_False not_less [symmetric] i o)
  have "hex_encode (concat (map word_bytes [0x3ea637a8, 0xa2047d93, 0xa7a10675, 0x1cb350b4,
               0x6f79115f, 0x5136026f, 0x39d9adc7, 0x0a406417]))
          = ''3ea637a8a2047d93a7a106751cb350b46f79115f5136026f39d9adc70a406417''"
    by code_simp
  then show ?thesis by (simp only: hmac_sha256_hex_def d)
qed

section \<open>Facts about the verifier, the dispatcher and the route\<close>

lemma verifySignature_own: "verifySignature p (createSignature p s) s = Inr True"
  by (simp add: verifySignature_iff createSignature_def hex_decode_hmac_hex hmac_sha256_length)

lemma createSignature_not_Nil: "createSignature p s \<noteq> []"
  using hmac_sha256_hex_length [of s p] by (auto simp: createSignature_def)

lemma hmac_sha256_hex_not_Nil: "hmac_sha256_hex s p \<noteq> []"
  using hmac_sha256_hex_length [of s p] by auto

lemma tolerance_new:
  "tolerance (new_WebhookHandler c) =
     (case tolerance c of Absent \<Rightarrow> Value (Finite 300) | Undefined \<Rightarrow> Undefined | Value t \<Rightarrow> Value t)"
  by (simp add: new_WebhookHandler_def split: property.splits)

lemma secret_new: "secret (new_WebhookHandler c) = secret c"
  by (simp add: new_WebhookHandler_def split: property.splits)

lemma verifyWebhook_missing:
  assumes "headers req ''x-licensechain-signature'' \<in> {None, Some []}
           \<or> headers req ''x-licensechain-timestamp'' \<in> {None, Some []}"
  shows "verifyWebhook cfg now req = unauthorized ''Missing webhook signature or timestamp''"
  using assms by (auto simp: verifyWebhook_def verifyWebhook_try_def split: option.splits)

lemma verifyWebhook_stale:
  assumes "headers req ''x-licensechain-signature'' = Some sg" "sg \<noteq> []"
    and "headers req ''x-licensechain-timestamp'' = Some ts" "ts \<noteq> []"
    and "outside_tolerance (now div 1000) (parseInt ts) (tolerance cfg)"
  shows "verifyWebhook cfg now req = unauthorized ''Webhook timestamp too old''"
  using assms by (simp add: verifyWebhook_def verifyWebhook_try_def)

lemma verifyWebhook_checked:
  assumes "headers req ''x-licensechain-signature'' = Some sg" "sg \<noteq> []"
    and "headers req ''x-licensechain-timestamp'' = Some ts" "ts \<noteq> []"
    and "\<not> outside_tolerance (now div 1000) (parseInt ts) (tolerance cfg)"
    and "body req = Some b"
  shows "verifyWebhook cfg now req =
     (case verifySignature (JSON_stringify b) sg (secret cfg) of
        Inl e \<Rightarrow> ([Log Error ''Error verifying webhook:''],
           Responded (Response 500 (JObj [(''success'', JBool False),
                                          (''error'', JStr ''Webhook verification failed'')])))
      | Inr ok \<Rightarrow> if ok then ([Log Info ''Webhook signature verified successfully''], CallNext)
                 else unauthorized ''Invalid webhook signature'')"
  using assms
  by (simp add: verifyWebhook_def verifyWebhook_try_def signing_payload_def verifySignature_def
      Let_def split: sum.splits)

lemma example_headers:
  "headers (example_request sg ts) ''x-licensechain-signature'' = Some sg"
  "headers (example_request sg ts) ''x-licensechain-timestamp'' = Some ts"
  "body (example_request sg ts) = Some example_body"
  "validation_errors (example_request sg ts) = []"
  "raw_body (example_request sg ts) = compact_text"
  by (simp_all add: example_request_def)

lemma spaced_headers:
  "headers spaced_request ''x-licensechain-signature''
     = Some (hmac_sha256_hex ''s3cr3t'' spaced_text)"
  "headers spaced_request ''x-licensechain-timestamp'' = Some ''1704067200''"
  "body spaced_request = Some example_body"
  "raw_body spaced_request = spaced_text"
  by (simp_all add: spaced_request_def)

lemma example_tolerance:
  "tolerance (new_WebhookHandler example_config) = Value (Finite 300)"
  "secret (new_WebhookHandler example_config) = ''s3cr3t''"
  by (simp_all add: new_WebhookHandler_def example_config_def)

lemma example_text: "JSON_stringify example_body = compact_text"
  by (simp add: example_body_def compact_text_def dq_def json_quote_def json_escape_def)

lemma route_accept_only:
  assumes "licensechain_route s req = (lg, h, Response 200 j)"
  shows "validation_errors req = [] \<and>
         (\<exists>b. body req = Some b \<and>
              headers req ''x-licensechain-signature''
                = Some (''sha256='' @ hmac_sha256_hex s (JSON_stringify b)))"
  using assms
  by (auto simp: licensechain_route_def licensechain_try_def route_reject_def signing_payload_def
      Let_def split: if_splits sum.splits option.splits)

lemma route_invoked_only:
  assumes "licensechain_route s req = (lg, Some h, resp)"
  shows "validation_errors req = [] \<and>
         (\<exists>b. body req = Some b \<and>
              headers req ''x-licensechain-signature''
                = Some (''sha256='' @ hmac_sha256_hex s (JSON_stringify b)))"
  using assms
  by (auto simp: licensechain_route_def licensechain_try_def route_reject_def signing_payload_def
      Let_def split: if_splits sum.splits option.splits)

lemma route_example:
  "licensechain_route ''s3cr3t''
     (example_request (''sha256='' @ hmac_sha256_hex ''s3cr3t'' (JSON_stringify example_body)) ts)
   = ([Log Info ''LicenseChain webhook received: license.created'',
       Log Info ''License created: lic_1''],
      Some LicenseCreated, Response 200 (JObj [(''received'', JBool True)]))"
  by (simp add: licensechain_route_def licensechain_try_def example_request_def signing_payload_def
      member_def example_body_def route_handler_for_def info1_def template_def
      del: JSON_stringify.simps)

lemma handler_for_None:
  assumes "t \<notin> {''license.created'', ''license.updated'', ''license.revoked'', ''license.expired'',
               ''payment.completed'', ''payment.failed'', ''payment.refunded'',
               ''user.created'', ''user.updated'', ''product.created'', ''product.updated''}"
  shows "handler_for t = None"
  using assms unfolding handler_for_def by simp

lemma route_handler_for_None:
  assumes "t \<notin> {''license.created'', ''license.updated'', ''license.deleted'',
               ''user.registered'', ''user.updated'', ''application.created'',
               ''application.updated''}"
  shows "route_handler_for (Some (JStr t)) = None"
  using assms unfolding route_handler_for_def by simp

lemma processWebhookEvent_unknown:
  assumes "handler_for (event_type ev) = None"
  shows "processWebhookEvent lg ev =
           \<lparr>logged = lg @ [Log Info (''Processing webhook event: '' @ event_type ev
                                     @ '' for seller '' @ event_sellerId ev),
                           Log Warn (''Unknown webhook event type: '' @ event_type ev)],
            invoked = None, thrown = None\<rparr>"
  using assms by (simp add: processWebhookEvent_def Let_def)

lemma processWebhookEvent_log:
  "processWebhookEvent lg ev =
     (processWebhookEvent [] ev)\<lparr>logged := lg @ logged (processWebhookEvent [] ev)\<rparr>"
  by (simp add: processWebhookEvent_def Let_def split: option.splits sum.splits)

lemma route_unknown:
  assumes "validation_errors req = []" and "body req = Some (JObj kvs)"
    and "map_of kvs ''event'' = Some (JStr t)"
    and "route_handler_for (Some (JStr t)) = None"
    and "headers req ''x-licensechain-signature''
           = Some (''sha256='' @ hmac_sha256_hex s (JSON_stringify (JObj kvs)))"
  shows "licensechain_route s req =
           ([Log Info (''LicenseChain webhook received: '' @ t),
             Log Info (''Unhandled LicenseChain event type: '' @ t)],
            None, Response 200 (JObj [(''received'', JBool True)]))"
  using assms
  by (simp add: licensechain_route_def licensechain_try_def signing_payload_def member_def
      template_def Let_def del: JSON_stringify.simps)

lemma route_status:
  "\<exists>lg h n j. licensechain_route s req = (lg, h, Response n j) \<and> n \<in> {200, 400, 500}"
  by (auto simp: licensechain_route_def licensechain_try_def route_reject_def
      Let_def split: if_splits sum.splits option.splits)

lemma route_short_signature:
  assumes "headers req ''x-licensechain-signature'' = Some sg" and "length sg = 64"
  shows "\<exists>lg n j. licensechain_route s req = (lg, None, Response n j) \<and> n \<in> {400, 500}"
proof -
  obtain lg h n j where r: "licensechain_route s req = (lg, h, Response n j)"
    and n: "n \<in> {200, 400, 500}"
    using route_status [of s req] by blast
  have no: "sg \<noteq> ''sha256='' @ hmac_sha256_hex s p" for p
    using assms(2) hmac_sha256_hex_length [of s p] by auto
  have "h = None"
  proof (cases h)
    case (Some x)
    with r route_invoked_only [of s req lg x "Response n j"] assms(1) no show ?thesis by auto
  qed simp
  moreover have "n \<noteq> 200"
    using r route_accept_only [of s req lg h j] assms(1) no by auto
  ultimately show ?thesis using r n by auto
qed

text \<open>What the two digests mean for the sender that signs the bytes it sends.\<close>

lemma digests_differ:
  "hmac_sha256_hex ''s3cr3t'' spaced_text \<noteq> hmac_sha256_hex ''s3cr3t'' compact_text"
  by (simp add: hmac_compact hmac_spaced)

lemma spaced_request_rejected:
  "verifyWebhook (new_WebhookHandler example_config) example_now spaced_request
     = ([Log Warn ''Invalid webhook signature''],
        Responded (Response 401 (JObj [(''success'', JBool False),
                     (''error'', JStr ''Invalid webhook signature'')])))"
proof -
  have d: "hex_decode (hmac_sha256_hex ''s3cr3t'' spaced_text)
             \<noteq> hmac_sha256 (utf8 ''s3cr3t'') (utf8 compact_text)"
  proof
    assume "hex_decode (hmac_sha256_hex ''s3cr3t'' spaced_text)
              = hmac_sha256 (utf8 ''s3cr3t'') (utf8 compact_text)"
    then have "hmac_sha256 (utf8 ''s3cr3t'') (utf8 spaced_text)
                 = hmac_sha256 (utf8 ''s3cr3t'') (utf8 compact_text)"
      by (simp only: hex_decode_hmac_hex)
    then have "hmac_sha256_hex ''s3cr3t'' spaced_text = hmac_sha256_hex ''s3cr3t'' compact_text"
      by (simp only: hmac_sha256_hex_def)
    with digests_differ show False by contradiction
  qed
  have v: "verifySignature compact_text (hmac_sha256_hex ''s3cr3t'' spaced_text) ''s3cr3t''
             = Inr False"
    using d by (simp add: verifySignature_iff hex_decode_hmac_hex hmac_sha256_length)
  have f: "\<not> outside_tolerance (example_now div 1000) (parseInt ''1704067200'')
             (tolerance (new_WebhookHandler example_config))"
    by (simp only: example_parse example_tolerance example_windows not_False_eq_True)
  show ?thesis
    using verifyWebhook_checked [OF spaced_headers(1) hmac_sha256_hex_not_Nil spaced_headers(2) _ f
        spaced_headers(3)]
    by (simp add: example_tolerance example_text v unauthorized_def)
qed

lemma spaced_route_rejected:
  "licensechain_route ''s3cr3t'' spaced_route_request
     = ([Log Warn ''Invalid LicenseChain webhook signature''], None,
        Response 400 (JObj [(''error'', JStr ''Invalid signature'')]))"
proof -
  have "signing_payload spaced_route_request = Some compact_text"
    by (simp add: signing_payload_def spaced_route_request_def example_text)
  moreover have "headers spaced_route_request ''x-licensechain-signature''
      \<noteq> Some (''sha256='' @ hmac_sha256_hex ''s3cr3t'' compact_text)"
    using digests_differ by (simp add: spaced_route_request_def)
  moreover have "validation_errors spaced_route_request = []"
    "member (body spaced_route_request) ''event'' = Inr (Some (JStr ''license.created''))"
    "member (body spaced_route_request) ''data'' = Inr (Some (JObj [(''id'', JStr ''lic_1'')]))"
    by (simp_all add: spaced_route_request_def example_body_def member_def)
  ultimately show ?thesis
    by (simp add: licensechain_route_def licensechain_try_def route_reject_def)
qed

section \<open>Claims\<close>

text \<open>
  C2. For every payload and every secret, the signature made by \<^verbatim>\<open>createSignature\<close> verifies:
  \<^verbatim>\<open>verifySignature(P, createSignature(P, S), S)\<close> returns \<^verbatim>\<open>true\<close>, for the class methods and
  for the exported pair \<^verbatim>\<open>createWebhookSignature\<close> / \<^verbatim>\<open>verifyWebhookSignature\<close>.
\<close>

theorem verifySignature_createSignature:
  "verifySignature P (createSignature P S) S = Inr True
   \<and> verifyWebhookSignature P (createWebhookSignature P S) S = Inr True"
  by (simp add: verifyWebhookSignature_eq verifySignature_iff createSignature_def
      createWebhookSignature_def hex_decode_hmac_hex hmac_sha256_length)

text \<open>
  C3 (the code departs from the claim). The claim: \<^verbatim>\<open>verifySignature\<close> never raises and
  returns \<^verbatim>\<open>false\<close> for a candidate that is not hexadecimal or decodes to a length other
  than 32 bytes. In the code \<^verbatim>\<open>crypto.timingSafeEqual\<close> gets the two buffers with no length
  check before it, so such a candidate makes \<^verbatim>\<open>verifySignature\<close> and
  \<^verbatim>\<open>verifyWebhookSignature\<close> throw a \<^verbatim>\<open>RangeError\<close>, and makes the middleware answer 500
  where a mismatch is answered 401.
\<close>

theorem verifySignature_throws:
  "verifySignature ''{}'' ''not-hex'' ''s3cr3t'' = Inl RangeError
   \<and> verifySignature ''{}'' ''abcd'' ''s3cr3t'' = Inl RangeError
   \<and> verifyWebhookSignature ''{}'' ''not-hex'' ''s3cr3t'' = Inl RangeError
   \<and> verifyWebhook (new_WebhookHandler example_config) example_now
         (example_request ''not-hex'' ''1704067200'')
       = ([Log Error ''Error verifying webhook:''],
          Responded (Response 500 (JObj [(''success'', JBool False),
                                         (''error'', JStr ''Webhook verification failed'')])))"
proof -
  have v: "verifySignature p ''not-hex'' s = Inl RangeError"
          "verifySignature p ''abcd'' s = Inl RangeError" for p s
    by (simp_all add: verifySignature_iff hex_val_def)
  have "\<not> outside_tolerance (example_now div 1000) (parseInt ''1704067200'')
           (tolerance (new_WebhookHandler example_config))"
    by (simp only: example_parse example_tolerance example_windows not_False_eq_True)
  then have "verifyWebhook (new_WebhookHandler example_config) example_now
         (example_request ''not-hex'' ''1704067200'')
       = ([Log Error ''Error verifying webhook:''],
          Responded (Response 500 (JObj [(''success'', JBool False),
                                         (''error'', JStr ''Webhook verification failed'')])))"
    using verifyWebhook_checked [OF example_headers(1) _ example_headers(2) _ _ example_headers(3),
        of "''not-hex''" "''1704067200''" example_now "new_WebhookHandler example_config"]
    by (simp add: v)
  then show ?thesis by (simp add: v verifyWebhookSignature_eq)
qed

text \<open>
  C7. A request in which the signature header or the timestamp header is absent (or both) is
  answered 401 \<^verbatim>\<open>Missing webhook signature or timestamp\<close>, whatever the configuration, the
  clock, the body and the other header are: the check comes before the timestamp is parsed
  or compared and before anything is hashed.
\<close>

theorem missing_credentials:
  assumes "headers req ''x-licensechain-signature'' = None
           \<or> headers req ''x-licensechain-timestamp'' = None"
  shows "verifyWebhook cfg now req =
           ([Log Warn ''Missing webhook signature or timestamp''],
            Responded (Response 401 (JObj [(''success'', JBool False),
                         (''error'', JStr ''Missing webhook signature or timestamp'')])))"
  using assms verifyWebhook_missing [of req cfg now] by (auto simp: unauthorized_def)

theorem missing_credentials_witness:
  "headers \<lparr>headers = [''x-licensechain-timestamp'' \<mapsto> ''not-a-timestamp''], raw_body = [],
            body = None, validation_errors = []\<rparr> ''x-licensechain-signature'' = None
   \<and> verifyWebhook (new_WebhookHandler example_config) example_now
        \<lparr>headers = [''x-licensechain-timestamp'' \<mapsto> ''not-a-timestamp''], raw_body = [],
         body = None, validation_errors = []\<rparr>
      = ([Log Warn ''Missing webhook signature or timestamp''],
         Responded (Response 401 (JObj [(''success'', JBool False),
                      (''error'', JStr ''Missing webhook signature or timestamp'')])))"
  using missing_credentials
    [of "\<lparr>headers = [''x-licensechain-timestamp'' \<mapsto> ''not-a-timestamp''], raw_body = [],
          body = None, validation_errors = []\<rparr>" "new_WebhookHandler example_config" example_now]
  by simp

text \<open>
  C4 (the code departs from the claim). The claim: a correctly signed request whose timestamp
  is within the tolerance is accepted, a request outside it is rejected even with a valid
  signature, and the tolerance is 300 seconds when not configured. A request is correctly
  signed when its signature header is the HMAC of the bytes of its body. In the code:

  \<^item> the sender that writes a blank after each colon and comma and signs the bytes it sends,
    with a timestamp equal to the clock, is answered 401 \<^verbatim>\<open>Invalid webhook signature\<close>,
    because \<^verbatim>\<open>verifyWebhook\<close> hashes \<^verbatim>\<open>JSON.stringify(req.body)\<close> (the defect of C6);
  \<^item> a handler built from \<^verbatim>\<open>{secret, tolerance: undefined}\<close> keeps \<^verbatim>\<open>undefined\<close>, since the
    spread \<^verbatim>\<open>{tolerance: 300, ...config}\<close> copies the own key over the default; the
    comparison with \<^verbatim>\<open>undefined\<close> is false, and a request 600 seconds old is passed on. The
    same request is answered 401 \<^verbatim>\<open>Webhook timestamp too old\<close> by a handler whose
    configuration has no \<^verbatim>\<open>tolerance\<close> key.
\<close>

theorem timestamp_window_violated:
  "correctly_signed ''s3cr3t'' spaced_request
   \<and> raw_body spaced_request = spaced_text
   \<and> headers spaced_request ''x-licensechain-signature''
       = Some ''3ea637a8a2047d93a7a106751cb350b46f79115f5136026f39d9adc70a406417''
   \<and> headers spaced_request ''x-licensechain-timestamp'' = Some ''1704067200''
   \<and> parseInt ''1704067200'' = Finite 1704067200
   \<and> \<bar>example_now div 1000 - 1704067200\<bar> \<le> (300 :: int)
   \<and> tolerance (new_WebhookHandler example_config) = Value (Finite 300)
   \<and> verifyWebhook (new_WebhookHandler example_config) example_now spaced_request
       = ([Log Warn ''Invalid webhook signature''],
          Responded (Response 401 (JObj [(''success'', JBool False),
                       (''error'', JStr ''Invalid webhook signature'')])))
   \<and> correctly_signed ''s3cr3t''
        (example_request (createSignature (JSON_stringify example_body) ''s3cr3t'') ''1704066600'')
   \<and> parseInt ''1704066600'' = Finite 1704066600
   \<and> \<bar>example_now div 1000 - 1704066600\<bar> = (600 :: int)
   \<and> tolerance (new_WebhookHandler \<lparr>secret = ''s3cr3t'', tolerance = Undefined\<rparr>) = Undefined
   \<and> verifyWebhook (new_WebhookHandler \<lparr>secret = ''s3cr3t'', tolerance = Undefined\<rparr>) example_now
        (example_request (createSignature (JSON_stringify example_body) ''s3cr3t'') ''1704066600'')
       = ([Log Info ''Webhook signature verified successfully''], CallNext)
   \<and> verifyWebhook (new_WebhookHandler example_config) example_now
        (example_request (createSignature (JSON_stringify example_body) ''s3cr3t'') ''1704066600'')
       = ([Log Warn ''Webhook timestamp too old''],
          Responded (Response 401 (JObj [(''success'', JBool False),
                       (''error'', JStr ''Webhook timestamp too old'')])))"
proof -
  let ?sg = "createSignature (JSON_stringify example_body) ''s3cr3t''"
  let ?u = "new_WebhookHandler \<lparr>secret = ''s3cr3t'', tolerance = Undefined\<rparr>"
  have a: "correctly_signed ''s3cr3t'' spaced_request"
    by (simp add: correctly_signed_def spaced_headers)
  have b: "headers spaced_request ''x-licensechain-signature''
       = Some ''3ea637a8a2047d93a7a106751cb350b46f79115f5136026f39d9adc70a406417''"
    by (simp only: spaced_headers hmac_spaced)
  have c: "\<bar>example_now div 1000 - 1704067200\<bar> \<le> (300 :: int)"
          "\<bar>example_now div 1000 - 1704066600\<bar> = (600 :: int)"
    by (simp_all add: example_now_def)
  have d: "correctly_signed ''s3cr3t'' (example_request ?sg ''1704066600'')"
    by (simp add: correctly_signed_def example_headers example_text createSignature_def)
  have u: "tolerance ?u = Undefined" "secret ?u = ''s3cr3t''"
    by (simp_all add: new_WebhookHandler_def)
  have f: "\<not> outside_tolerance (example_now div 1000) (parseInt ''1704066600'') (tolerance ?u)"
    by (simp only: u example_parse example_windows not_False_eq_True)
  have g: "verifyWebhook ?u example_now (example_request ?sg ''1704066600'')
       = ([Log Info ''Webhook signature verified successfully''], CallNext)"
    using verifyWebhook_checked [OF example_headers(1) createSignature_not_Nil example_headers(2) _ f
        example_headers(3)]
    by (simp add: u verifySignature_own)
  have s: "outside_tolerance (example_now div 1000) (parseInt ''1704066600'')
             (tolerance (new_WebhookHandler example_config))"
    by (simp only: example_parse example_tolerance example_windows)
  have h: "verifyWebhook (new_WebhookHandler example_config) example_now
        (example_request ?sg ''1704066600'')
       = ([Log Warn ''Webhook timestamp too old''],
          Responded (Response 401 (JObj [(''success'', JBool False),
                       (''error'', JStr ''Webhook timestamp too old'')])))"
    using verifyWebhook_stale [OF example_headers(1) createSignature_not_Nil example_headers(2) _ s]
    by (simp add: unauthorized_def)
  show ?thesis
    by (intro conjI a spaced_headers(4) b spaced_headers(2) example_parse(1) c(1)
        example_tolerance(1) spaced_request_rejected d example_parse(2) c(2) u(1) g h)
qed

text \<open>
  C5 (the code departs from the claim). The claim: a request whose timestamp header does not
  parse as an integer fails with \<^verbatim>\<open>MalformedTimestamp\<close> and cannot pass the freshness check.
  In the code \<^verbatim>\<open>parseInt\<close> gives \<^verbatim>\<open>NaN\<close> for such a header, the comparison
  \<^verbatim>\<open>Math.abs(currentTime - NaN) > tolerance\<close> is false, and the request goes on to the
  signature check: with a valid signature it is passed on to \<^verbatim>\<open>next()\<close>.
\<close>

theorem malformed_timestamp_accepted:
  "parseInt ''not-a-timestamp'' = NaN
   \<and> verifyWebhook (new_WebhookHandler example_config) example_now
        (example_request (createSignature (JSON_stringify example_body) ''s3cr3t'')
           ''not-a-timestamp'')
      = ([Log Info ''Webhook signature verified successfully''], CallNext)"
proof -
  have "\<not> outside_tolerance (example_now div 1000) (parseInt ''not-a-timestamp'')
           (tolerance (new_WebhookHandler example_config))"
    by (simp only: example_parse example_tolerance example_windows not_False_eq_True)
  then have "verifyWebhook (new_WebhookHandler example_config) example_now
        (example_request (createSignature (JSON_stringify example_body) ''s3cr3t'')
           ''not-a-timestamp'')
      = ([Log Info ''Webhook signature verified successfully''], CallNext)"
    using verifyWebhook_checked [OF example_headers(1) createSignature_not_Nil example_headers(2) _ _
        example_headers(3), of "''not-a-timestamp''" example_now "new_WebhookHandler example_config"]
    by (simp add: example_tolerance verifySignature_own)
  then show ?thesis by (simp add: example_parse)
qed

text \<open>
  C6 (the code departs from the claim). The claim: the text handed to the HMAC is the received
  body, byte for byte. In \<^verbatim>\<open>verifyWebhook\<close> and in the \<^verbatim>\<open>/licensechain\<close> route it is
  \<^verbatim>\<open>JSON.stringify(req.body)\<close>, the parsed body written out again. The sender that puts a
  blank after each colon and comma and signs the bytes it sends is answered 401 by the
  middleware and 400 by the route: the text that is hashed is not the one received.
\<close>

theorem signing_payload_reserialized:
  "raw_body spaced_request = spaced_text
   \<and> headers spaced_request ''x-licensechain-signature''
       = Some (createSignature spaced_text ''s3cr3t'')
   \<and> signing_payload spaced_request = Some compact_text
   \<and> compact_text \<noteq> spaced_text
   \<and> createSignature spaced_text ''s3cr3t'' \<noteq> createSignature compact_text ''s3cr3t''
   \<and> verifyWebhook (new_WebhookHandler example_config) example_now spaced_request
      = ([Log Warn ''Invalid webhook signature''],
         Responded (Response 401 (JObj [(''success'', JBool False),
                      (''error'', JStr ''Invalid webhook signature'')])))
   \<and> raw_body spaced_route_request = spaced_text
   \<and> headers spaced_route_request ''x-licensechain-signature''
       = Some (''sha256='' @ createSignature spaced_text ''s3cr3t'')
   \<and> signing_payload spaced_route_request = Some compact_text
   \<and> licensechain_route ''s3cr3t'' spaced_route_request
      = ([Log Warn ''Invalid LicenseChain webhook signature''], None,
         Response 400 (JObj [(''error'', JStr ''Invalid signature'')]))"
proof -
  have a: "headers spaced_request ''x-licensechain-signature''
       = Some (createSignature spaced_text ''s3cr3t'')"
    by (simp only: spaced_headers createSignature_def)
  have p: "signing_payload spaced_request = Some compact_text"
          "signing_payload spaced_route_request = Some compact_text"
    by (simp_all add: signing_payload_def spaced_headers spaced_route_request_def example_text)
  have d: "compact_text \<noteq> spaced_text"
    by (simp add: compact_text_def spaced_text_def dq_def)
  have e: "createSignature spaced_text ''s3cr3t'' \<noteq> createSignature compact_text ''s3cr3t''"
    unfolding createSignature_def by (rule digests_differ)
  have r: "raw_body spaced_route_request = spaced_text"
          "headers spaced_route_request ''x-licensechain-signature''
             = Some (''sha256='' @ createSignature spaced_text ''s3cr3t'')"
    by (simp_all add: spaced_route_request_def createSignature_def)
  show ?thesis
    by (intro conjI spaced_headers(4) a p d e spaced_request_rejected r spaced_route_rejected)
qed

text \<open>
  C1 (the code departs from the claim). The claim: a handler is reached only after the
  signature and the timestamp window have been verified. The \<^verbatim>\<open>/licensechain\<close> route, the one
  the application mounts, checks the signature and never reads a timestamp header: a request
  stamped with second 0 of the epoch and signed in the route's format has its handler
  invoked and is answered 200. \<^verbatim>\<open>verifyWebhook\<close>, which no route is mounted behind, answers
  the same timestamp with 401 \<^verbatim>\<open>Webhook timestamp too old\<close>.
\<close>

theorem route_dispatches_stale_request:
  "parseInt ''0'' = Finite 0
   \<and> outside_tolerance (example_now div 1000) (parseInt ''0'') (Value (Finite 300))
   \<and> licensechain_route ''s3cr3t''
        (example_request (''sha256='' @ hmac_sha256_hex ''s3cr3t'' (JSON_stringify example_body)) ''0'')
      = ([Log Info ''LicenseChain webhook received: license.created'',
          Log Info ''License created: lic_1''],
         Some LicenseCreated, Response 200 (JObj [(''received'', JBool True)]))
   \<and> verifyWebhook (new_WebhookHandler example_config) example_now
        (example_request (createSignature (JSON_stringify example_body) ''s3cr3t'') ''0'')
      = ([Log Warn ''Webhook timestamp too old''],
         Responded (Response 401 (JObj [(''success'', JBool False),
                      (''error'', JStr ''Webhook timestamp too old'')])))"
proof -
  have o: "outside_tolerance (example_now div 1000) (parseInt ''0'') (Value (Finite 300))"
    by (simp only: example_parse example_windows)
  then have s: "outside_tolerance (example_now div 1000) (parseInt ''0'')
                  (tolerance (new_WebhookHandler example_config))"
    by (simp only: example_tolerance)
  have h: "verifyWebhook (new_WebhookHandler example_config) example_now
        (example_request (createSignature (JSON_stringify example_body) ''s3cr3t'') ''0'')
      = ([Log Warn ''Webhook timestamp too old''],
         Responded (Response 401 (JObj [(''success'', JBool False),
                      (''error'', JStr ''Webhook timestamp too old'')])))"
    using verifyWebhook_stale [OF example_headers(1) createSignature_not_Nil example_headers(2) _ s]
    by (simp add: unauthorized_def)
  show ?thesis
    by (intro conjI example_parse(3) o route_example h)
qed

text \<open>
  C8. An event whose kind has no \<^verbatim>\<open>case\<close> in \<^verbatim>\<open>processWebhookEvent\<close> makes it log two lines,
  call no handler and throw nothing, whatever its \<^verbatim>\<open>data\<close> is; the event after it is
  processed as a dispatcher that has seen nothing would process it. In the
  \<^verbatim>\<open>/licensechain\<close> route a validated and signed body whose \<^verbatim>\<open>event\<close> has no \<^verbatim>\<open>case\<close> is
  logged, no handler is invoked and the answer is 200 \<^verbatim>\<open>{received: true}\<close>.
\<close>

theorem unknown_kind_unhandled:
  "(event_type ev \<notin> {''license.created'', ''license.updated'', ''license.revoked'',
                       ''license.expired'', ''payment.completed'', ''payment.failed'',
                       ''payment.refunded'', ''user.created'', ''user.updated'',
                       ''product.created'', ''product.updated''}
    \<longrightarrow> processWebhookEvent lg ev =
          \<lparr>logged = lg @ [Log Info (''Processing webhook event: '' @ event_type ev
                                    @ '' for seller '' @ event_sellerId ev),
                          Log Warn (''Unknown webhook event type: '' @ event_type ev)],
           invoked = None, thrown = None\<rparr>
        \<and> processWebhookEvent (logged (processWebhookEvent lg ev)) ev' =
            (processWebhookEvent [] ev')
              \<lparr>logged := logged (processWebhookEvent lg ev) @ logged (processWebhookEvent [] ev')\<rparr>)
   \<and> (validation_errors req = [] \<and> body req = Some (JObj kvs)
      \<and> map_of kvs ''event'' = Some (JStr t)
      \<and> t \<notin> {''license.created'', ''license.updated'', ''license.deleted'', ''user.registered'',
              ''user.updated'', ''application.created'', ''application.updated''}
      \<and> headers req ''x-licensechain-signature''
          = Some (''sha256='' @ hmac_sha256_hex s (JSON_stringify (JObj kvs)))
    \<longrightarrow> licensechain_route s req =
          ([Log Info (''LicenseChain webhook received: '' @ t),
            Log Info (''Unhandled LicenseChain event type: '' @ t)],
           None, Response 200 (JObj [(''received'', JBool True)])))"
proof (intro conjI impI)
  assume "event_type ev \<notin> {''license.created'', ''license.updated'', ''license.revoked'',
                       ''license.expired'', ''payment.completed'', ''payment.failed'',
                       ''payment.refunded'', ''user.created'', ''user.updated'',
                       ''product.created'', ''product.updated''}"
  then have "handler_for (event_type ev) = None" by (rule handler_for_None)
  then show "processWebhookEvent lg ev =
          \<lparr>logged = lg @ [Log Info (''Processing webhook event: '' @ event_type ev
                                    @ '' for seller '' @ event_sellerId ev),
                          Log Warn (''Unknown webhook event type: '' @ event_type ev)],
           invoked = None, thrown = None\<rparr>"
    by (rule processWebhookEvent_unknown)
next
  show "processWebhookEvent (logged (processWebhookEvent lg ev)) ev' =
            (processWebhookEvent [] ev')
              \<lparr>logged := logged (processWebhookEvent lg ev) @ logged (processWebhookEvent [] ev')\<rparr>"
    by (rule processWebhookEvent_log)
next
  assume a: "validation_errors req = [] \<and> body req = Some (JObj kvs)
      \<and> map_of kvs ''event'' = Some (JStr t)
      \<and> t \<notin> {''license.created'', ''license.updated'', ''license.deleted'', ''user.registered'',
              ''user.updated'', ''application.created'', ''application.updated''}
      \<and> headers req ''x-licensechain-signature''
          = Some (''sha256='' @ hmac_sha256_hex s (JSON_stringify (JObj kvs)))"
  then have v: "validation_errors req = []" and b: "body req = Some (JObj kvs)"
    and m: "map_of kvs ''event'' = Some (JStr t)"
    and n: "t \<notin> {''license.created'', ''license.updated'', ''license.deleted'',
               ''user.registered'', ''user.updated'', ''application.created'',
               ''application.updated''}"
    and g: "headers req ''x-licensechain-signature''
              = Some (''sha256='' @ hmac_sha256_hex s (JSON_stringify (JObj kvs)))"
    by simp_all
  from n have h: "route_handler_for (Some (JStr t)) = None"
    by (rule route_handler_for_None)
  show "licensechain_route s req =
          ([Log Info (''LicenseChain webhook received: '' @ t),
            Log Info (''Unhandled LicenseChain event type: '' @ t)],
           None, Response 200 (JObj [(''received'', JBool True)]))"
    by (rule route_unknown [OF v b m h g])
qed

text \<open>The witness: an \<^verbatim>\<open>invoice.created\<close> event with no \<^verbatim>\<open>data\<close> is logged and dropped, the
  \<^verbatim>\<open>license.created\<close> event after it reaches its handler, and the route answers 200 to a
  signed \<^verbatim>\<open>license.revoked\<close> body, a kind it has no \<^verbatim>\<open>case\<close> for.\<close>

theorem unknown_kind_unhandled_witness:
  "event_type unknown_event \<notin> {''license.created'', ''license.updated'', ''license.revoked'',
                       ''license.expired'', ''payment.completed'', ''payment.failed'',
                       ''payment.refunded'', ''user.created'', ''user.updated'',
                       ''product.created'', ''product.updated''}
   \<and> processWebhookEvent [] unknown_event =
        \<lparr>logged = [Log Info ''Processing webhook event: invoice.created for seller seller_1'',
                   Log Warn ''Unknown webhook event type: invoice.created''],
         invoked = None, thrown = None\<rparr>
   \<and> processWebhookEvent (logged (processWebhookEvent [] unknown_event)) known_event =
        \<lparr>logged = [Log Info ''Processing webhook event: invoice.created for seller seller_1'',
                   Log Warn ''Unknown webhook event type: invoice.created'',
                   Log Info ''Processing webhook event: license.created for seller seller_1'',
                   Log Info ''License created: lic_1 for user u_7''],
         invoked = Some HandleLicenseCreated, thrown = None\<rparr>
   \<and> licensechain_route ''s3cr3t'' revoked_request =
        ([Log Info ''LicenseChain webhook received: license.revoked'',
          Log Info ''Unhandled LicenseChain event type: license.revoked''],
         None, Response 200 (JObj [(''received'', JBool True)]))"
proof -
  have u: "event_type unknown_event \<notin> {''license.created'', ''license.updated'',
             ''license.revoked'', ''license.expired'', ''payment.completed'', ''payment.failed'',
             ''payment.refunded'', ''user.created'', ''user.updated'',
             ''product.created'', ''product.updated''}"
    by (simp add: unknown_event_def)
  have k: "processWebhookEvent [] known_event =
        \<lparr>logged = [Log Info ''Processing webhook event: license.created for seller seller_1'',
                   Log Info ''License created: lic_1 for user u_7''],
         invoked = Some HandleLicenseCreated, thrown = None\<rparr>"
    by (simp add: processWebhookEvent_def known_event_def handler_for_def info2_def member_def
        template_def)
  note w = unknown_kind_unhandled [where ev = unknown_event and lg = "[]" and ev' = known_event,
      THEN conjunct1, THEN mp, OF u]
  have p: "processWebhookEvent [] unknown_event =
        \<lparr>logged = [] @ [Log Info (''Processing webhook event: '' @ event_type unknown_event
                                    @ '' for seller '' @ event_sellerId unknown_event),
                          Log Warn (''Unknown webhook event type: '' @ event_type unknown_event)],
         invoked = None, thrown = None\<rparr>"
    by (rule w [THEN conjunct1])
  have q: "processWebhookEvent (logged (processWebhookEvent [] unknown_event)) known_event =
            (processWebhookEvent [] known_event)
              \<lparr>logged := logged (processWebhookEvent [] unknown_event)
                          @ logged (processWebhookEvent [] known_event)\<rparr>"
    by (rule w [THEN conjunct2])
  from p have p': "processWebhookEvent [] unknown_event =
        \<lparr>logged = [Log Info ''Processing webhook event: invoice.created for seller seller_1'',
                   Log Warn ''Unknown webhook event type: invoice.created''],
         invoked = None, thrown = None\<rparr>"
    by (simp add: unknown_event_def)
  from q have q': "processWebhookEvent (logged (processWebhookEvent [] unknown_event)) known_event =
        \<lparr>logged = [Log Info ''Processing webhook event: invoice.created for seller seller_1'',
                   Log Warn ''Unknown webhook event type: invoice.created'',
                   Log Info ''Processing webhook event: license.created for seller seller_1'',
                   Log Info ''License created: lic_1 for user u_7''],
         invoked = Some HandleLicenseCreated, thrown = None\<rparr>"
    by (simp add: p' k)
  have h: "validation_errors revoked_request = []
      \<and> body revoked_request = Some (JObj [(''event'', JStr ''license.revoked''),
           (''data'', JObj [(''id'', JStr ''lic_1'')]),
           (''timestamp'', JStr ''2024-01-01T00:00:00Z'')])
      \<and> map_of [(''event'', JStr ''license.revoked''),
           (''data'', JObj [(''id'', JStr ''lic_1'')]),
           (''timestamp'', JStr ''2024-01-01T00:00:00Z'')] ''event'' = Some (JStr ''license.revoked'')
      \<and> ''license.revoked'' \<notin> {''license.created'', ''license.updated'', ''license.deleted'',
              ''user.registered'', ''user.updated'', ''application.created'', ''application.updated''}
      \<and> headers revoked_request ''x-licensechain-signature''
          = Some (''sha256='' @ hmac_sha256_hex ''s3cr3t'' (JSON_stringify
               (JObj [(''event'', JStr ''license.revoked''),
                      (''data'', JObj [(''id'', JStr ''lic_1'')]),
                      (''timestamp'', JStr ''2024-01-01T00:00:00Z'')])))"
    by (simp add: revoked_request_def revoked_body_def del: JSON_stringify.simps)
  have r: "licensechain_route ''s3cr3t'' revoked_request =
        ([Log Info (''LicenseChain webhook received: '' @ ''license.revoked''),
          Log Info (''Unhandled LicenseChain event type: '' @ ''license.revoked'')],
         None, Response 200 (JObj [(''received'', JBool True)]))"
    by (rule unknown_kind_unhandled [where req = revoked_request and s = "''s3cr3t''"
          and t = "''license.revoked''"
          and kvs = "[(''event'', JStr ''license.revoked''),
             (''data'', JObj [(''id'', JStr ''lic_1'')]),
             (''timestamp'', JStr ''2024-01-01T00:00:00Z'')]", THEN conjunct2, THEN mp, OF h])
  then have r': "licensechain_route ''s3cr3t'' revoked_request =
        ([Log Info ''LicenseChain webhook received: license.revoked'',
          Log Info ''Unhandled LicenseChain event type: license.revoked''],
         None, Response 200 (JObj [(''received'', JBool True)]))"
    by simp
  show ?thesis by (rule conjI [OF u conjI [OF p' conjI [OF q' r']]])
qed

text \<open>
  C10. The two interfaces accept disjoint signature formats. The \<^verbatim>\<open>/licensechain\<close> route
  answers 200 only to a signature header that is \<^verbatim>\<open>sha256=\<close> followed by the hexadecimal HMAC
  of the body; a header that is an output of \<^verbatim>\<open>createSignature\<close> (64 characters), in
  particular the one for the request's own body and the route's secret, is answered 400 or
  500 with no handler invoked; and \<^verbatim>\<open>verifySignature\<close>, which accepts the output of
  \<^verbatim>\<open>createSignature\<close>, does not return \<^verbatim>\<open>true\<close> on a string that begins with \<^verbatim>\<open>sha256=\<close>.
\<close>

theorem signature_formats_disjoint:
  "(licensechain_route s req = (lg, h, Response 200 j)
    \<longrightarrow> (\<exists>b. body req = Some b
             \<and> headers req ''x-licensechain-signature''
                 = Some (''sha256='' @ createSignature (JSON_stringify b) s)))
   \<and> (headers req ''x-licensechain-signature'' = Some (createSignature p s')
    \<longrightarrow> (\<exists>lg' n j'. licensechain_route s req = (lg', None, Response n j') \<and> n \<in> {400, 500}))
   \<and> length (createSignature p s') = 64
   \<and> verifySignature p (createSignature p s') s' = Inr True
   \<and> verifySignature p (''sha256='' @ x) s' = Inl RangeError"
proof (intro conjI impI)
  assume "licensechain_route s req = (lg, h, Response 200 j)"
  from route_accept_only [OF this]
  show "\<exists>b. body req = Some b
             \<and> headers req ''x-licensechain-signature''
                 = Some (''sha256='' @ createSignature (JSON_stringify b) s)"
    by (simp add: createSignature_def)
next
  assume "headers req ''x-licensechain-signature'' = Some (createSignature p s')"
  then show "\<exists>lg' n j'. licensechain_route s req = (lg', None, Response n j') \<and> n \<in> {400, 500}"
    by (rule route_short_signature) (simp add: createSignature_def hmac_sha256_hex_length)
next
  show "length (createSignature p s') = 64"
    by (simp add: createSignature_def hmac_sha256_hex_length)
next
  show "verifySignature p (createSignature p s') s' = Inr True"
    by (rule verifySignature_own)
next
  have "hex_decode (''sha256='' @ x) = []"
    by (simp add: hex_val_def)
  then show "verifySignature p (''sha256='' @ x) s' = Inl RangeError"
    by (simp only: verifySignature_iff) simp
qed

text \<open>The witness: the route answers 200 to the scenario's body signed with the prefix, and
  400 to the same body with the bare digest in the header.\<close>

theorem signature_formats_disjoint_witness:
  "licensechain_route ''s3cr3t''
       (example_request (''sha256='' @ createSignature (JSON_stringify example_body) ''s3cr3t'')
          ''1704067200'')
     = ([Log Info ''LicenseChain webhook received: license.created'',
         Log Info ''License created: lic_1''],
        Some LicenseCreated, Response 200 (JObj [(''received'', JBool True)]))
   \<and> (\<exists>b. body (example_request
                   (''sha256='' @ createSignature (JSON_stringify example_body) ''s3cr3t'')
                   ''1704067200'') = Some b
          \<and> headers (example_request
                   (''sha256='' @ createSignature (JSON_stringify example_body) ''s3cr3t'')
                   ''1704067200'') ''x-licensechain-signature''
              = Some (''sha256='' @ createSignature (JSON_stringify b) ''s3cr3t''))
   \<and> headers (example_request (createSignature (JSON_stringify example_body) ''s3cr3t'')
                 ''1704067200'') ''x-licensechain-signature''
       = Some (createSignature (JSON_stringify example_body) ''s3cr3t'')
   \<and> (\<exists>lg' n j'.
         licensechain_route ''s3cr3t''
           (example_request (createSignature (JSON_stringify example_body) ''s3cr3t'')
              ''1704067200'')
         = (lg', None, Response n j') \<and> n \<in> {400, 500})"
proof -
  let ?pre = "example_request (''sha256='' @ createSignature (JSON_stringify example_body) ''s3cr3t'')
                ''1704067200''"
  let ?bare = "example_request (createSignature (JSON_stringify example_body) ''s3cr3t'')
                 ''1704067200''"
  let ?lg = "[Log Info ''LicenseChain webhook received: license.created'',
              Log Info ''License created: lic_1'']"
  have a: "licensechain_route ''s3cr3t'' ?pre
             = (?lg, Some LicenseCreated, Response 200 (JObj [(''received'', JBool True)]))"
    using route_example [of "''1704067200''"] by (simp only: createSignature_def)
  have g: "headers ?bare ''x-licensechain-signature''
             = Some (createSignature (JSON_stringify example_body) ''s3cr3t'')"
    by (rule example_headers)
  have b: "\<exists>b. body ?pre = Some b
          \<and> headers ?pre ''x-licensechain-signature''
              = Some (''sha256='' @ createSignature (JSON_stringify b) ''s3cr3t'')"
    by (rule signature_formats_disjoint
          [where s = "''s3cr3t''" and req = ?pre and lg = ?lg and h = "Some LicenseCreated"
             and j = "JObj [(''received'', JBool True)]", THEN conjunct1, THEN mp, OF a])
  have c: "\<exists>lg' n j'. licensechain_route ''s3cr3t'' ?bare = (lg', None, Response n j')
             \<and> n \<in> {400, 500}"
    by (rule signature_formats_disjoint
          [where s = "''s3cr3t''" and req = ?bare and p = "JSON_stringify example_body"
             and s' = "''s3cr3t''", THEN conjunct2, THEN conjunct1, THEN mp, OF g])
  show ?thesis by (rule conjI [OF a conjI [OF b conjI [OF g c]]])
qed

end

